theory Spec2Isabelle
  imports Complex_Main "HOL-Library.AList"
begin

section \<open>Decoded JSON values\<close>

text \<open>
  The service (fm-webhooks) relays webhook calls to a FileMaker script and hands the
  script's answer back. Everything it inspects is a value decoded from JSON, so the
  data model is the JSON value. A JavaScript number is a double: a NaN, an infinity
  or a finite value, and every finite double is a rational, so finite numbers are
  modelled as \<open>rat\<close> (comparison and the integer test are then exact).
  An object is the list of its own properties in enumeration order; a lookup takes
  the first binding of a key. \<open>undefined\<close> is \<open>None\<close> of \<open>json option\<close>.
\<close>

datatype number = NaN | PosInfinity | NegInfinity | Num rat

datatype json =
    JNull
  | JBool bool
  | JNumber number
  | JString string
  | JArray "json list"
  | JObject "(string \<times> json) list"

datatype js_error = TypeError string | SyntaxError string | RangeError string | Error string

fun message :: "js_error \<Rightarrow> string" where
  "message (TypeError m) = m"
| "message (SyntaxError m) = m"
| "message (RangeError m) = m"
| "message (Error m) = m"

text \<open>
  The library functions the source calls, the language's own and the one of the web
  framework that can throw. They are taken as parameters, so that what is proved of
  the source for all of them holds of the real ones; \<open>JSON_parse\<close> returns \<open>None\<close>
  where \<open>JSON.parse\<close> throws, and \<open>InvalidStatusCode\<close> is the error with which
  \<open>res.status(code).json(body)\<close> throws for a status code it cannot send.
\<close>

record builtins =
  JSON_parse :: "string \<Rightarrow> json option"
  JSON_stringify :: "json \<Rightarrow> string"
  StringToNumber :: "string \<Rightarrow> number"
  NumberToString :: "number \<Rightarrow> string"
  InvalidStatusCode :: "int \<Rightarrow> js_error"

subsection \<open>Property access, optional chaining and nullish coalescing\<close>

text \<open>
  \<open>v.k\<close> for the keys the source reads (\<open>scriptResult\<close>, \<open>resultParameter\<close>,
  \<open>code\<close>, \<open>httpCode\<close>, \<open>body\<close>): none of them is a property of a prototype, so
  only an object's own property answers, and a string, number, boolean or array
  gives \<open>undefined\<close>.
\<close>

fun get :: "json \<Rightarrow> string \<Rightarrow> json option" where
  "get (JObject kvs) k = map_of kvs k"
| "get _ k = None"

fun nullish :: "json option \<Rightarrow> bool" where
  "nullish None = True"
| "nullish (Some JNull) = True"
| "nullish (Some _) = False"

text \<open>\<open>a?.k\<close>: \<open>undefined\<close> when \<open>a\<close> is \<open>null\<close> or \<open>undefined\<close>.\<close>

definition opt_get :: "json option \<Rightarrow> string \<Rightarrow> json option" where
  "opt_get a k = (case a of None \<Rightarrow> None | Some v \<Rightarrow> (if v = JNull then None else get v k))"

text \<open>\<open>a ?? b\<close>.\<close>

definition coalesce :: "json option \<Rightarrow> json option \<Rightarrow> json option" where
  "coalesce a b = (if nullish a then b else a)"

subsection \<open>Conversion to a number\<close>

text \<open>
  \<open>Number(v)\<close>. A primitive converts directly. An array or object goes through
  \<open>OrdinaryToPrimitive\<close>: \<open>valueOf\<close> never yields a primitive here (an own
  \<open>valueOf\<close> decoded from JSON is not callable, the inherited one returns the
  object itself), then \<open>toString\<close> is called. For an array that is \<open>join(",")\<close>,
  where a \<open>null\<close> element is the empty string. For an object it is
  \<open>"[object Object]"\<close>, unless the object has an own property \<open>toString\<close>: that
  one is not callable, and the conversion throws a TypeError.
\<close>

definition cannot_convert :: js_error where
  "cannot_convert = TypeError ''Cannot convert object to primitive value''"

fun intercalate :: "string \<Rightarrow> string list \<Rightarrow> string" where
  "intercalate sep [] = []"
| "intercalate sep [x] = x"
| "intercalate sep (x # y # ys) = x @ sep @ intercalate sep (y # ys)"

fun ToString :: "builtins \<Rightarrow> json \<Rightarrow> js_error + string"
  and join_elements :: "builtins \<Rightarrow> json list \<Rightarrow> js_error + string list" where
  "ToString B JNull = Inr ''null''"
| "ToString B (JBool b) = Inr (if b then ''true'' else ''false'')"
| "ToString B (JNumber n) = Inr (NumberToString B n)"
| "ToString B (JString s) = Inr s"
| "ToString B (JArray xs) =
     (case join_elements B xs of Inl e \<Rightarrow> Inl e | Inr ss \<Rightarrow> Inr (intercalate '','' ss))"
| "ToString B (JObject kvs) =
     (if map_of kvs ''toString'' \<noteq> None then Inl cannot_convert
      else Inr ''[object Object]'')"
| "join_elements B [] = Inr []"
| "join_elements B (x # xs) =
     (case (if x = JNull then Inr [] else ToString B x) of
        Inl e \<Rightarrow> Inl e
      | Inr s \<Rightarrow> (case join_elements B xs of Inl e \<Rightarrow> Inl e | Inr ss \<Rightarrow> Inr (s # ss)))"

fun Number :: "builtins \<Rightarrow> json option \<Rightarrow> js_error + number" where
  "Number B None = Inr NaN"
| "Number B (Some JNull) = Inr (Num 0)"
| "Number B (Some (JBool b)) = Inr (Num (if b then 1 else 0))"
| "Number B (Some (JNumber n)) = Inr n"
| "Number B (Some (JString s)) = Inr (StringToNumber B s)"
| "Number B (Some (JArray xs)) =
     (case ToString B (JArray xs) of Inl e \<Rightarrow> Inl e | Inr s \<Rightarrow> Inr (StringToNumber B s))"
| "Number B (Some (JObject kvs)) =
     (if map_of kvs ''toString'' \<noteq> None then Inl cannot_convert else Inr NaN)"

text \<open>\<open>Number.isInteger(n) && n >= 100 && n < 600\<close>; \<open>undefined\<close> is no integer.\<close>

fun isInteger :: "number option \<Rightarrow> bool" where
  "isInteger (Some (Num q)) = (of_int \<lfloor>q\<rfloor> = q)"
| "isInteger _ = False"

fun valid_status :: "number option \<Rightarrow> bool" where
  "valid_status (Some (Num q)) = (isInteger (Some (Num q)) \<and> q \<ge> 100 \<and> q < 600)"
| "valid_status _ = False"

section \<open>The remote script invoker and its result normalizer\<close>

text \<open>
  \<open>runFmScript\<close> of fmClient.js, in the revision that normalizes the script result
  (src/unnamed/part_001). The outbound call and the decoding of its answer
  (\<open>fetch\<close>, \<open>fmResp.json()\<close>) are the backend's behaviour: a function from the
  request body to a thrown error or to the transport status with the decoded body.
\<close>

record fm_result =
  status :: int
  body :: json

type_synonym backend = "string \<Rightarrow> js_error + (int \<times> json)"

text \<open>Lines 33 to 37: the descent into the nested result.\<close>

definition resultText :: "json \<Rightarrow> json" where
  "resultText fmBody =
     (let scriptResult = opt_get (Some fmBody) ''scriptResult''
      in case coalesce (coalesce (coalesce (opt_get scriptResult ''resultParameter'')
                                           (opt_get scriptResult ''code''))
                                 scriptResult)
                       (Some fmBody) of
           Some v \<Rightarrow> v
         | None \<Rightarrow> fmBody)"

text \<open>\<open>typeof v === "object" && v !== null\<close>.\<close>

fun is_object :: "json \<Rightarrow> bool" where
  "is_object (JObject _) = True"
| "is_object (JArray _) = True"
| "is_object _ = False"

text \<open>
  Lines 40 to 47: the candidate status (\<open>None\<close> while \<open>httpCode\<close> stays
  \<open>undefined\<close>) and the candidate body.
\<close>

definition candidates :: "builtins \<Rightarrow> json \<Rightarrow> js_error + (number option \<times> json)" where
  "candidates B rt =
     (if is_object rt then
        (case Number B (get rt ''httpCode'') of
           Inl e \<Rightarrow> Inl e
         | Inr httpCode \<Rightarrow>
             Inr (Some httpCode,
                  (case coalesce (get rt ''body'') (Some rt) of Some b \<Rightarrow> b | None \<Rightarrow> rt)))
      else Inr (None, rt))"

text \<open>Lines 49 to 57: a string candidate is parsed; where parsing throws it is kept.\<close>

definition parse_candidate :: "builtins \<Rightarrow> json \<Rightarrow> json" where
  "parse_candidate B bodyCandidate =
     (case bodyCandidate of
        JString s \<Rightarrow> (case JSON_parse B s of Some v \<Rightarrow> v | None \<Rightarrow> bodyCandidate)
      | _ \<Rightarrow> bodyCandidate)"

text \<open>Lines 59 to 62.\<close>

definition finalStatus :: "number option \<Rightarrow> int \<Rightarrow> int" where
  "finalStatus httpCode transport =
     (case httpCode of
        Some (Num q) \<Rightarrow> if valid_status httpCode then \<lfloor>q\<rfloor> else transport
      | _ \<Rightarrow> transport)"

definition normalize_result :: "builtins \<Rightarrow> json \<Rightarrow> int \<Rightarrow> js_error + fm_result" where
  "normalize_result B fmBody transport =
     (case candidates B (resultText fmBody) of
        Inl e \<Rightarrow> Inl e
      | Inr (httpCode, bodyCandidate) \<Rightarrow>
          Inr \<lparr>status = finalStatus httpCode transport,
               body = parse_candidate B bodyCandidate\<rparr>)"

definition runFmScript :: "builtins \<Rightarrow> backend \<Rightarrow> string \<Rightarrow> js_error + fm_result" where
  "runFmScript B fetch scriptParam =
     (case fetch (JSON_stringify B (JObject [(''scriptParameterValue'', JString scriptParam)])) of
        Inl e \<Rightarrow> Inl e
      | Inr (transport, fmBody) \<Rightarrow> normalize_result B fmBody transport)"

text \<open>
  The two other revisions of \<open>runFmScript\<close> do not normalize. The one at the end of
  src/unnamed/part_000 (lines 239 to 263) posts the same request and relays the
  descended value (\<open>resultParameter\<close>, else \<open>scriptResult\<close>, else the whole body)
  under the transport status; the one of src/src/fmClient.js puts the parameter into
  the URL of a GET request and relays the decoded body as it is.
\<close>

definition runFmScript_relay :: "builtins \<Rightarrow> backend \<Rightarrow> string \<Rightarrow> js_error + fm_result" where
  "runFmScript_relay B fetch scriptParam =
     (case fetch (JSON_stringify B (JObject [(''scriptParameterValue'', JString scriptParam)])) of
        Inl e \<Rightarrow> Inl e
      | Inr (transport, fmBody) \<Rightarrow>
          (let scriptResult = opt_get (Some fmBody) ''scriptResult''
           in Inr \<lparr>status = transport,
                    body = (case coalesce (coalesce (opt_get scriptResult ''resultParameter'')
                                                    scriptResult)
                                          (Some fmBody) of
                              Some v \<Rightarrow> v
                            | None \<Rightarrow> fmBody)\<rparr>))"

definition runFmScript_get :: "backend \<Rightarrow> string \<Rightarrow> js_error + fm_result" where
  "runFmScript_get fetch scriptParam =
     (case fetch scriptParam of
        Inl e \<Rightarrow> Inl e
      | Inr (transport, fmBody) \<Rightarrow> Inr \<lparr>status = transport, body = fmBody\<rparr>)"

section \<open>The webhook handler\<close>

text \<open>
  \<open>app.post("/hooks/:endpoint")\<close> of index.js (src/unnamed/part_000, lines 139 to
  215). What the handler reads of the inbound call is a record; what it does is the
  list of its effects in order, with the response it asks Express to send: the
  argument of \<open>res.status\<close>, the headers it sets and the argument of \<open>res.json\<close>.
\<close>

record request =
  params_endpoint :: string
  originalUrl :: string
  path :: string
  headers :: "(string \<times> string) list"
  req_body :: json
  remoteAddress :: "string option"

text \<open>
  The audit store is the mysql2 pool, or \<open>null\<close>. A query either rejects with an
  error or resolves (one that never settles is not modelled); of the result only
  \<open>insertId\<close> is read (0 where there is none). The three statements of the source
  are the constructors of \<open>sql\<close>, each with the values bound to its placeholders.
\<close>

datatype sql =
    INSERT_webhooks string string string string
  | UPDATE_webhooks string int nat
  | UPDATE_webhooks_duration string int int nat

type_synonym pool = "(sql \<Rightarrow> js_error + nat) option"

datatype event =
    Query sql
  | RunFmScript string
  | ConsoleError string
  | ConsoleLog string

record response =
  res_status :: int
  res_headers :: "(string \<times> string) list"
  res_json :: "json option"

record outcome =
  sent :: response
  events :: "event list"

text \<open>\<open>s.split(c)\<close> for a one-character separator, and \<open>xs[i]\<close>.\<close>

fun split_on :: "char \<Rightarrow> string \<Rightarrow> string list" where
  "split_on c [] = [[]]"
| "split_on c (x # xs) =
     (if x = c then [] # split_on c xs
      else (case split_on c xs of [] \<Rightarrow> [[x]] | y # ys \<Rightarrow> (x # y) # ys))"

definition nth_opt :: "'a list \<Rightarrow> nat \<Rightarrow> 'a option" where
  "nth_opt xs i = (if i < length xs then Some (xs ! i) else None)"

text \<open>\<open>(a || b || ... || "").toString()\<close> over header values.\<close>

fun first_truthy :: "string option list \<Rightarrow> string" where
  "first_truthy [] = []"
| "first_truthy (None # xs) = first_truthy xs"
| "first_truthy (Some s # xs) = (if s = [] then first_truthy xs else s)"

definition queryString :: "request \<Rightarrow> string" where
  "queryString req = first_truthy [nth_opt (split_on CHR ''?'' (originalUrl req)) 1]"

definition sourceHost :: "request \<Rightarrow> string" where
  "sourceHost req =
     first_truthy [map_of (headers req) ''x-forwarded-host'',
                   map_of (headers req) ''x-forwarded-for'',
                   map_of (headers req) ''host'']"

definition userAgent :: "request \<Rightarrow> string" where
  "userAgent req = first_truthy [map_of (headers req) ''user-agent'']"

definition clientIp :: "request \<Rightarrow> string" where
  "clientIp req = first_truthy [map_of (headers req) ''x-forwarded-for'', remoteAddress req]"

text \<open>
  Lines 148 to 160. \<open>res.statusCode\<close> is still Express's initial 200 when the payload
  is assembled.
\<close>

definition payloadObj :: "string \<Rightarrow> string \<Rightarrow> request \<Rightarrow> json" where
  "payloadObj requestId endpoint req =
     JObject [(''requestId'', JString requestId),
              (''endpoint'', JString endpoint),
              (''path'', JString (path req)),
              (''queryString'', JString (queryString req)),
              (''httpCode'', JNumber (Num 200)),
              (''headers'', JObject (map (\<lambda>(k, v). (k, JString v)) (headers req))),
              (''body'', req_body req),
              (''source'', JString (sourceHost req)),
              (''userAgent'', JString (userAgent req)),
              (''clientIp'', JString (clientIp req))]"

text \<open>
  Lines 162 to 173: the pre-insert. It gives \<open>insertedId\<close> (\<open>None\<close> for \<open>null\<close>) and
  the effects; a rejected query is logged and nothing else.
\<close>

definition pre_insert :: "pool \<Rightarrow> sql \<Rightarrow> nat option \<times> event list" where
  "pre_insert pool ins =
     (case pool of
        None \<Rightarrow> (None, [])
      | Some query \<Rightarrow>
          (case query ins of
             Inl logErr \<Rightarrow>
               (None, [Query ins, ConsoleError (''MySQL pre-insert failed: '' @ message logErr)])
           | Inr insertId \<Rightarrow> (if insertId = 0 then None else Some insertId, [Query ins])))"

definition inserted_row :: "pool \<Rightarrow> sql \<Rightarrow> nat option" where
  "inserted_row pool ins = fst (pre_insert pool ins)"

text \<open>Lines 186 to 195 and 205 to 212: the post-update, run only under \<open>pool && insertedId\<close>.\<close>

definition post_update :: "pool \<Rightarrow> nat option \<Rightarrow> (nat \<Rightarrow> sql) \<Rightarrow> bool \<Rightarrow> event list" where
  "post_update pool insertedId upd logged =
     (case (pool, insertedId) of
        (Some query, Some rowid) \<Rightarrow>
          (case query (upd rowid) of
             Inl logErr \<Rightarrow>
               Query (upd rowid) #
               (if logged then [ConsoleError (''MySQL update failed: '' @ message logErr)] else [])
           | Inr _ \<Rightarrow> [Query (upd rowid)])
      | _ \<Rightarrow> [])"

text \<open>
  Lines 198 to 201: \<open>{ ...finalResponse, requestId }\<close> for an object or array (an array
  spreads into its indices), else \<open>finalResponse ?? { status: "ok", requestId }\<close>.
\<close>

function show_nat :: "nat \<Rightarrow> string" where
  "show_nat n = (if n < 10 then [char_of (48 + n)]
                 else show_nat (n div 10) @ [char_of (48 + n mod 10)])"
  by pat_completeness auto
termination
  by (relation "measure id") auto

declare show_nat.simps [simp del]

definition spread :: "json \<Rightarrow> (string \<times> json) list" where
  "spread v =
     (case v of
        JObject kvs \<Rightarrow> kvs
      | JArray xs \<Rightarrow> zip (map show_nat [0 ..< length xs]) xs
      | _ \<Rightarrow> [])"

definition bodyOut :: "json \<Rightarrow> string \<Rightarrow> json" where
  "bodyOut finalResponse requestId =
     (if is_object finalResponse
        then JObject (AList.update ''requestId'' (JString requestId) (spread finalResponse))
      else if finalResponse = JNull
        then JObject [(''status'', JString ''ok''), (''requestId'', JString requestId)]
      else finalResponse)"

definition other_hooks_response :: "string \<Rightarrow> json" where
  "other_hooks_response endpoint =
     JObject [(''status'', JString ''ok''), (''channel'', JString endpoint),
              (''note'', JString ''Handled by other-hooks branch'')]"

definition error_body :: "js_error \<Rightarrow> json" where
  "error_body err = JObject [(''error'', JString (message err))]"

text \<open>
  Line 202, \<open>res.status(finalStatus || 200).json(bodyOut)\<close>: the status code handed
  over, and whether it can be sent. A code that is not in the range from 100 to 999
  makes the call throw a RangeError (in \<open>res.status\<close> itself, or when the header is
  written), inside the \<open>try\<close> block and after the post-update and \<open>res.set\<close>.
\<close>

definition response_code :: "fm_result \<Rightarrow> int" where
  "response_code r = (if status r = 0 then 200 else status r)"

definition sendable :: "int \<Rightarrow> bool" where
  "sendable code \<longleftrightarrow> 100 \<le> code \<and> code \<le> 999"

text \<open>
  Lines 203 to 214, the \<open>catch\<close> block: the error is logged, the row (if there is
  one) is updated with the error and status 500, a failure of that update is dropped,
  and the caller is answered 500 with the message. The headers are those already set
  on the response when the error was thrown.
\<close>

definition catch_block ::
  "builtins \<Rightarrow> pool \<Rightarrow> nat option \<Rightarrow> (string \<times> string) list \<Rightarrow> js_error \<Rightarrow> event list \<Rightarrow>
   outcome" where
  "catch_block B pool insertedId headers_set err before =
     \<lparr>sent = \<lparr>res_status = 500, res_headers = headers_set,
              res_json = Some (error_body err)\<rparr>,
      events = before @ [ConsoleError (message err)] @
         post_update pool insertedId
           (UPDATE_webhooks (JSON_stringify B (error_body err)) 500) False\<rparr>"

text \<open>
  The handler. The request id is the identifier that \<open>crypto.randomUUID\<close> returns,
  \<open>fm\<close> is \<open>runFmScript\<close>. Lines 175 to 202 are the \<open>try\<close> block: the branch for
  \<open>other-hooks\<close> or the invocation, the post-update, the header and the response.
  The \<open>catch\<close> block is entered when the invocation throws, and when the response
  cannot be sent with the status the invocation returned.
\<close>

definition hooks_handler ::
  "builtins \<Rightarrow> pool \<Rightarrow> (string \<Rightarrow> js_error + fm_result) \<Rightarrow> string \<Rightarrow> request \<Rightarrow> outcome" where
  "hooks_handler B pool fm requestId req =
     (let endpoint = params_endpoint req;
          scriptParam = JSON_stringify B (payloadObj requestId endpoint req);
          ins = INSERT_webhooks (sourceHost req) endpoint scriptParam requestId;
          insertedId = inserted_row pool ins;
          ev1 = snd (pre_insert pool ins);
          fmr = (if endpoint = ''other-hooks''
                   then Inr \<lparr>status = 200, body = other_hooks_response endpoint\<rparr>
                 else fm scriptParam);
          ev2 = (if endpoint = ''other-hooks'' then [] else [RunFmScript scriptParam])
      in case fmr of
           Inr r \<Rightarrow>
             (let ev3 = post_update pool insertedId
                          (UPDATE_webhooks (JSON_stringify B (body r)) (status r)) True
              in if sendable (response_code r) then
                   \<lparr>sent = \<lparr>res_status = response_code r,
                            res_headers = [(''X-Request-Id'', requestId)],
                            res_json = Some (bodyOut (body r) requestId)\<rparr>,
                    events = ev1 @ ev2 @ ev3\<rparr>
                 else catch_block B pool insertedId [(''X-Request-Id'', requestId)]
                        (InvalidStatusCode B (response_code r)) (ev1 @ ev2 @ ev3))
         | Inl err \<Rightarrow> catch_block B pool insertedId [] err (ev1 @ ev2))"

text \<open>
  \<open>app.post("/:endpoint")\<close>, lines 218 to 224. \<open>res_headers\<close> holds the URL handed to
  \<open>res.redirect\<close> as \<open>Location\<close>.
\<close>

definition redirectUrl :: "request \<Rightarrow> string" where
  "redirectUrl req =
     ''/hooks/'' @ params_endpoint req @
     (case nth_opt (split_on CHR ''?'' (originalUrl req)) 1 of
        None \<Rightarrow> []
      | Some query \<Rightarrow> if query = [] then [] else ''?'' @ query)"

definition redirect_handler :: "request \<Rightarrow> outcome" where
  "redirect_handler req =
     \<lparr>sent = \<lparr>res_status = 307, res_headers = [(''Location'', redirectUrl req)],
              res_json = None\<rparr>,
      events = [ConsoleLog (''[Redirect] '' @ originalUrl req @
                            [CHR '' '', CHR 0xE2, CHR 0x86, CHR 0x92, CHR '' ''] @
                            redirectUrl req)]\<rparr>"

section \<open>The revision with the metrics collector\<close>

text \<open>
  The metrics collector and the request timer exist in one revision of index.js only,
  the one kept in src/Dockerfile (lines 283 to 577): \<open>metrics\<close> and
  \<open>observeLatency\<close> at lines 357 to 372, the handler \<open>app.post("*")\<close> at lines 481
  to 572. The revision of src/unnamed/part_000 has neither. The thresholds are the
  binary64 numbers of the decimal values the source writes; the elapsed time is the
  difference of the two \<open>process.hrtime.bigint()\<close> readings, in nanoseconds.
\<close>

record metrics =
  requestCount :: nat
  fmCallCount :: nat
  fmErrorCount :: nat
  httpStatusCounts :: "(int \<times> nat) list"
  latencyHistogram :: "nat list"

text \<open>
  The arithmetic of the source is that of binary64 numbers. \<open>to_double\<close> rounds a
  rational to the nearest number with a significand of 53 bits, a tie to the even
  one; the exponent range is not modelled, all magnitudes here lie well inside it.
\<close>

function bit_length :: "int \<Rightarrow> int" where
  "bit_length n = (if n \<le> 0 then 0 else 1 + bit_length (n div 2))"
  by pat_completeness auto
termination
  by (relation "measure nat") auto

declare bit_length.simps [simp del]

definition scale2 :: "rat \<Rightarrow> int \<Rightarrow> rat" where
  "scale2 q e = (if e \<ge> 0 then q * 2 ^ nat e else q / 2 ^ nat (- e))"

text \<open>The exponent \<open>e\<close> of a positive \<open>q\<close>: 2 to the \<open>e\<close> is at most \<open>q\<close>, the next power is above.\<close>

definition binary_exponent :: "rat \<Rightarrow> int" where
  "binary_exponent q =
     (if q \<ge> 1 then bit_length \<lfloor>q\<rfloor> - 1
      else - bit_length (\<lceil>1 / q\<rceil> - 1))"

definition round_half_even :: "rat \<Rightarrow> int" where
  "round_half_even r =
     (let f = \<lfloor>r\<rfloor>; d = r - of_int f
      in if d < 1 / 2 then f
         else if d > 1 / 2 then f + 1
         else if even f then f else f + 1)"

definition to_double :: "rat \<Rightarrow> rat" where
  "to_double q =
     (if q = 0 then 0
      else (let a = \<bar>q\<bar>;
                u = binary_exponent a - 52;
                d = scale2 (of_int (round_half_even (scale2 a (- u)))) u
            in if q < 0 then - d else d))"

definition latencyBuckets :: "rat list" where
  "latencyBuckets = map to_double [1 / 100, 1 / 20, 1 / 10, 1 / 4, 1 / 2, 1, 2, 5, 10]"

definition initial_metrics :: metrics where
  "initial_metrics =
     \<lparr>requestCount = 0, fmCallCount = 0, fmErrorCount = 0,
      httpStatusCounts = [], latencyHistogram = replicate 9 0\<rparr>"

text \<open>
  The loop of \<open>observeLatency\<close>: the index of the first threshold that is not below
  \<open>seconds\<close>, counted from \<open>i\<close>.
\<close>

fun bucket_index :: "rat \<Rightarrow> rat list \<Rightarrow> nat \<Rightarrow> nat option" where
  "bucket_index seconds [] i = None"
| "bucket_index seconds (b # bs) i =
     (if seconds \<le> b then Some i else bucket_index seconds bs (Suc i))"

text \<open>
  \<open>h[i]++\<close>. The source's array has nine slots and every index it uses is below
  nine; an index outside the list leaves the list as it is.
\<close>

definition increment :: "nat list \<Rightarrow> nat \<Rightarrow> nat list" where
  "increment h i = (if i < length h then h[i := Suc (h ! i)] else h)"

definition observeLatency :: "rat \<Rightarrow> metrics \<Rightarrow> metrics" where
  "observeLatency seconds m =
     m\<lparr>latencyHistogram :=
         increment (latencyHistogram m)
           (case bucket_index seconds latencyBuckets 0 of
              Some i \<Rightarrow> i
            | None \<Rightarrow> length (latencyHistogram m) - 1)\<rparr>"

text \<open>\<open>counts[s] = (counts[s] || 0) + 1\<close>.\<close>

definition count_status :: "int \<Rightarrow> metrics \<Rightarrow> metrics" where
  "count_status s m =
     m\<lparr>httpStatusCounts :=
         AList.update s (case map_of (httpStatusCounts m) s of None \<Rightarrow> 1 | Some c \<Rightarrow> Suc c)
           (httpStatusCounts m)\<rparr>"

text \<open>
  \<open>Number(endedAtHr - startedAtHr) / 1e9\<close>: the conversion of the difference and the
  division each round to a binary64 number.
\<close>

definition durationSec :: "nat \<Rightarrow> rat" where
  "durationSec elapsed_ns = to_double (to_double (of_nat elapsed_ns) / 1000000000)"

text \<open>
  \<open>Math.round(durationSec * 1000)\<close>: the product is rounded to a binary64 number,
  and \<open>Math.round\<close> gives the nearest integer, a tie upwards.
\<close>

definition durationMs :: "nat \<Rightarrow> int" where
  "durationMs elapsed_ns = \<lfloor>to_double (durationSec elapsed_ns * 1000) + 1 / 2\<rfloor>"

text \<open>
  The handler. The endpoint is the path without its leading slashes; the pre-insert
  is the one above (the extra alternative \<open>result[0].insertId\<close> reads an index of
  the result header, which has none). The latency and the status are observed before
  the post-update and the response; the \<open>catch\<close> block is the one above, with the
  error counter incremented first.
\<close>

definition path_endpoint :: "request \<Rightarrow> string" where
  "path_endpoint req = dropWhile (\<lambda>c. c = CHR ''/'') (path req)"

definition post_handler ::
  "builtins \<Rightarrow> pool \<Rightarrow> (string \<Rightarrow> js_error + fm_result) \<Rightarrow> string \<Rightarrow> request \<Rightarrow> nat \<Rightarrow>
   metrics \<Rightarrow> outcome \<times> metrics" where
  "post_handler B pool fm requestId req elapsed_ns m0 =
     (let endpoint = path_endpoint req;
          m1 = m0\<lparr>requestCount := Suc (requestCount m0)\<rparr>;
          scriptParam = JSON_stringify B (payloadObj requestId endpoint req);
          ins = INSERT_webhooks (sourceHost req) endpoint scriptParam requestId;
          insertedId = inserted_row pool ins;
          ev1 = snd (pre_insert pool ins);
          m2 = (if endpoint = ''other-hooks'' then m1
                else m1\<lparr>fmCallCount := Suc (fmCallCount m1)\<rparr>);
          fmr = (if endpoint = ''other-hooks''
                   then Inr \<lparr>status = 200, body = other_hooks_response endpoint\<rparr>
                 else fm scriptParam);
          ev2 = (if endpoint = ''other-hooks'' then [] else [RunFmScript scriptParam])
      in case fmr of
           Inr r \<Rightarrow>
             (let m3 = count_status (status r) (observeLatency (durationSec elapsed_ns) m2);
                  ev3 = post_update pool insertedId
                          (UPDATE_webhooks_duration (JSON_stringify B (body r)) (status r)
                             (durationMs elapsed_ns)) True
              in if sendable (response_code r) then
                   (\<lparr>sent = \<lparr>res_status = response_code r,
                             res_headers = [(''X-Request-Id'', requestId)],
                             res_json = Some (bodyOut (body r) requestId)\<rparr>,
                     events = ev1 @ ev2 @ ev3\<rparr>,
                    m3)
                 else (catch_block B pool insertedId [(''X-Request-Id'', requestId)]
                         (InvalidStatusCode B (response_code r)) (ev1 @ ev2 @ ev3),
                       m3\<lparr>fmErrorCount := Suc (fmErrorCount m3)\<rparr>))
         | Inl err \<Rightarrow>
             (catch_block B pool insertedId [] err (ev1 @ ev2),
              m2\<lparr>fmErrorCount := Suc (fmErrorCount m2)\<rparr>))"

text \<open>
  A sequence of inbound calls, each with the collaborators it meets. The counters are
  only ever incremented, in statements that no other call interleaves, so the calls
  are served one after the other.
\<close>

record call =
  call_pool :: pool
  call_fm :: "string \<Rightarrow> js_error + fm_result"
  call_requestId :: string
  call_request :: request
  call_elapsed :: nat

definition serve_one :: "builtins \<Rightarrow> call \<Rightarrow> metrics \<Rightarrow> outcome \<times> metrics" where
  "serve_one B c m =
     post_handler B (call_pool c) (call_fm c) (call_requestId c) (call_request c)
       (call_elapsed c) m"

fun serve :: "builtins \<Rightarrow> metrics \<Rightarrow> call list \<Rightarrow> metrics" where
  "serve B m [] = m"
| "serve B m (c # cs) = serve B (snd (serve_one B c m)) cs"

text \<open>The call fails: the script is invoked and the invocation throws.\<close>

definition failed :: "builtins \<Rightarrow> call \<Rightarrow> bool" where
  "failed B c =
     (let req = call_request c; endpoint = path_endpoint req
      in endpoint \<noteq> ''other-hooks'' \<and>
         (case call_fm c (JSON_stringify B (payloadObj (call_requestId c) endpoint req)) of
            Inl _ \<Rightarrow> True
          | Inr _ \<Rightarrow> False))"

text \<open>
  The call ends in the \<open>catch\<close> branch: the invocation throws, or it returns a status
  with which the response cannot be sent.
\<close>

definition caught :: "builtins \<Rightarrow> call \<Rightarrow> bool" where
  "caught B c =
     (let req = call_request c; endpoint = path_endpoint req
      in endpoint \<noteq> ''other-hooks'' \<and>
         (case call_fm c (JSON_stringify B (payloadObj (call_requestId c) endpoint req)) of
            Inl _ \<Rightarrow> True
          | Inr r \<Rightarrow> \<not> sendable (response_code r)))"

section \<open>Reference library functions\<close>

text \<open>
  One instance of the library functions, for evaluating the source on concrete
  inputs: \<open>JSON.parse\<close> and \<open>JSON.stringify\<close> over the JSON grammar, the
  conversion of a string to a number over the numeric string grammar, the printing
  of a number, and the error for a status code that cannot be sent. Text is Latin-1 (a unicode escape above 00FF is not read).
  A decimal literal keeps its exact value and a number prints in positional
  notation with its exact digits, which is what the language does for the integers
  and short decimals used below.
\<close>

definition is_digit :: "char \<Rightarrow> bool" where
  "is_digit c \<longleftrightarrow> (48::nat) \<le> of_char c \<and> of_char c \<le> (57::nat)"

definition digit_of :: "char \<Rightarrow> nat" where
  "digit_of c = of_char c - 48"

fun decimal :: "nat \<Rightarrow> string \<Rightarrow> nat" where
  "decimal acc [] = acc"
| "decimal acc (c # cs) = decimal (10 * acc + digit_of c) cs"

definition scale10 :: "rat \<Rightarrow> int \<Rightarrow> rat" where
  "scale10 q e = (if e \<ge> 0 then q * 10 ^ nat e else q / 10 ^ nat (- e))"

definition exp_part :: "string \<Rightarrow> (int \<times> string) option" where
  "exp_part s =
     (case s of
        [] \<Rightarrow> Some (0, [])
      | c # cs \<Rightarrow>
          if c = CHR ''e'' \<or> c = CHR ''E'' then
            (let (neg, ds) =
               (case cs of
                  [] \<Rightarrow> (False, [])
                | d # r \<Rightarrow> if d = CHR ''-'' then (True, r)
                           else if d = CHR ''+'' then (False, r) else (False, cs))
             in if takeWhile is_digit ds = [] then None
                else Some ((if neg then - 1 else 1) * int (decimal 0 (takeWhile is_digit ds)),
                           dropWhile is_digit ds))
          else Some (0, s))"

text \<open>A JSON number: sign, integer part without leading zero, fraction, exponent.\<close>

definition json_number :: "string \<Rightarrow> (json \<times> string) option" where
  "json_number s =
     (let (neg, s1) = (case s of [] \<Rightarrow> (False, [])
                       | c # cs \<Rightarrow> if c = CHR ''-'' then (True, cs) else (False, s));
          ip = takeWhile is_digit s1;
          s2 = dropWhile is_digit s1
      in if ip = [] \<or> (length ip > 1 \<and> hd ip = CHR ''0'') then None
         else
           (case (case s2 of [] \<Rightarrow> Some ([], [])
                  | c # cs \<Rightarrow>
                      if c = CHR ''.'' then
                        (if takeWhile is_digit cs = [] then None
                         else Some (takeWhile is_digit cs, dropWhile is_digit cs))
                      else Some ([], s2)) of
              None \<Rightarrow> None
            | Some (fp, s3) \<Rightarrow>
                (case exp_part s3 of
                   None \<Rightarrow> None
                 | Some (e, s4) \<Rightarrow>
                     Some (JNumber (Num ((if neg then - 1 else 1) *
                             scale10 (of_nat (decimal 0 (ip @ fp)) / 10 ^ length fp) e)), s4))))"

definition hex_of :: "char \<Rightarrow> nat option" where
  "hex_of c =
     (let n = (of_char c :: nat)
      in if 48 \<le> n \<and> n \<le> 57 then Some (n - 48)
         else if 97 \<le> n \<and> n \<le> 102 then Some (n - 87)
         else if 65 \<le> n \<and> n \<le> 70 then Some (n - 55)
         else None)"

text \<open>The characters of a JSON string after its opening quote, up to the closing one.\<close>

fun str_chars :: "string \<Rightarrow> string \<Rightarrow> (string \<times> string) option" where
  "str_chars acc [] = None"
| "str_chars acc (c # cs) =
     (if c = CHR 0x22 then Some (rev acc, cs)
      else if c = CHR 0x5C then
        (case cs of
           [] \<Rightarrow> None
         | e # r \<Rightarrow>
             if e = CHR 0x22 \<or> e = CHR 0x5C \<or> e = CHR ''/'' then str_chars (e # acc) r
             else if e = CHR ''b'' then str_chars (CHR 0x08 # acc) r
             else if e = CHR ''f'' then str_chars (CHR 0x0C # acc) r
             else if e = CHR ''n'' then str_chars (CHR 0x0A # acc) r
             else if e = CHR ''r'' then str_chars (CHR 0x0D # acc) r
             else if e = CHR ''t'' then str_chars (CHR 0x09 # acc) r
             else if e = CHR ''u'' then
               (case r of
                  a # b # c' # d # r' \<Rightarrow>
                    (case (hex_of a, hex_of b, hex_of c', hex_of d) of
                       (Some 0, Some 0, Some h, Some l) \<Rightarrow> str_chars (char_of (16 * h + l) # acc) r'
                     | _ \<Rightarrow> None)
                | _ \<Rightarrow> None)
             else None)
      else if (of_char c :: nat) < 32 then None
      else str_chars (c # acc) cs)"

definition is_json_ws :: "char \<Rightarrow> bool" where
  "is_json_ws c \<longleftrightarrow> c = CHR '' '' \<or> c = CHR 0x09 \<or> c = CHR 0x0A \<or> c = CHR 0x0D"

definition skip_ws :: "string \<Rightarrow> string" where
  "skip_ws = dropWhile is_json_ws"

fun strip_prefix :: "string \<Rightarrow> string \<Rightarrow> string option" where
  "strip_prefix [] s = Some s"
| "strip_prefix (p # ps) [] = None"
| "strip_prefix (p # ps) (c # cs) = (if p = c then strip_prefix ps cs else None)"

definition literal :: "string \<Rightarrow> (json \<times> string) option" where
  "literal s =
     (case strip_prefix ''true'' s of
        Some r \<Rightarrow> Some (JBool True, r)
      | None \<Rightarrow>
          (case strip_prefix ''false'' s of
             Some r \<Rightarrow> Some (JBool False, r)
           | None \<Rightarrow>
               (case strip_prefix ''null'' s of
                  Some r \<Rightarrow> Some (JNull, r)
                | None \<Rightarrow> json_number s)))"

text \<open>
  The recursive descent. The first argument bounds the number of nested calls; twice
  the length of the text is enough, since every call reads a character.
\<close>

fun parse_value :: "nat \<Rightarrow> string \<Rightarrow> (json \<times> string) option"
  and parse_elements :: "nat \<Rightarrow> json list \<Rightarrow> string \<Rightarrow> (json \<times> string) option"
  and parse_members :: "nat \<Rightarrow> (string \<times> json) list \<Rightarrow> string \<Rightarrow> (json \<times> string) option"
where
  "parse_value 0 s = None"
| "parse_value (Suc n) s =
     (case skip_ws s of
        [] \<Rightarrow> None
      | c # cs \<Rightarrow>
          if c = CHR ''{'' then
            (case skip_ws cs of
               [] \<Rightarrow> None
             | d # ds \<Rightarrow> if d = CHR ''}'' then Some (JObject [], ds)
                         else parse_members n [] (d # ds))
          else if c = CHR ''['' then
            (case skip_ws cs of
               [] \<Rightarrow> None
             | d # ds \<Rightarrow> if d = CHR '']'' then Some (JArray [], ds)
                         else parse_elements n [] (d # ds))
          else if c = CHR 0x22 then
            (case str_chars [] cs of None \<Rightarrow> None | Some (str, r) \<Rightarrow> Some (JString str, r))
          else literal (c # cs))"
| "parse_elements 0 acc s = None"
| "parse_elements (Suc n) acc s =
     (case parse_value n s of
        None \<Rightarrow> None
      | Some (v, r) \<Rightarrow>
          (case skip_ws r of
             [] \<Rightarrow> None
           | c # cs \<Rightarrow> if c = CHR '','' then parse_elements n (acc @ [v]) cs
                       else if c = CHR '']'' then Some (JArray (acc @ [v]), cs)
                       else None))"
| "parse_members 0 acc s = None"
| "parse_members (Suc n) acc s =
     (case skip_ws s of
        [] \<Rightarrow> None
      | c # cs \<Rightarrow>
          if c = CHR 0x22 then
            (case str_chars [] cs of
               None \<Rightarrow> None
             | Some (k, r) \<Rightarrow>
                 (case skip_ws r of
                    [] \<Rightarrow> None
                  | d # ds \<Rightarrow>
                      if d = CHR '':'' then
                        (case parse_value n ds of
                           None \<Rightarrow> None
                         | Some (v, r2) \<Rightarrow>
                             (case skip_ws r2 of
                                [] \<Rightarrow> None
                              | e # es \<Rightarrow>
                                  if e = CHR '','' then parse_members n (AList.update k v acc) es
                                  else if e = CHR ''}'' then Some (JObject (AList.update k v acc), es)
                                  else None))
                      else None))
          else None)"

definition parse_json :: "string \<Rightarrow> json option" where
  "parse_json s =
     (case parse_value (2 * length s + 2) s of
        None \<Rightarrow> None
      | Some (v, r) \<Rightarrow> if skip_ws r = [] then Some v else None)"

text \<open>A text between double quotes, for writing JSON texts below.\<close>

definition dq :: "string \<Rightarrow> string" where
  "dq s = CHR 0x22 # s @ [CHR 0x22]"

text \<open>
  The numeric string grammar: surrounding white space, the empty string as 0, a
  signed decimal literal or \<open>Infinity\<close>, an unsigned hexadecimal, octal or binary
  literal; anything else is NaN.
\<close>

definition is_str_ws :: "char \<Rightarrow> bool" where
  "is_str_ws c \<longleftrightarrow> (of_char c :: nat) \<in> {9, 10, 11, 12, 13, 32, 160}"

definition trim :: "string \<Rightarrow> string" where
  "trim s = rev (dropWhile is_str_ws (rev (dropWhile is_str_ws s)))"

fun radix_value :: "nat \<Rightarrow> nat \<Rightarrow> string \<Rightarrow> nat option" where
  "radix_value r acc [] = Some acc"
| "radix_value r acc (c # cs) =
     (case hex_of c of
        None \<Rightarrow> None
      | Some d \<Rightarrow> if d < r then radix_value r (r * acc + d) cs else None)"

definition non_decimal :: "string \<Rightarrow> number option" where
  "non_decimal s =
     (case s of
        z # x # ds \<Rightarrow>
          if z = CHR ''0'' \<and> ds \<noteq> [] then
            (let r = (if x = CHR ''x'' \<or> x = CHR ''X'' then 16
                      else if x = CHR ''o'' \<or> x = CHR ''O'' then 8
                      else if x = CHR ''b'' \<or> x = CHR ''B'' then 2 else (0::nat))
             in if r = 0 then None
                else Some (case radix_value r 0 ds of None \<Rightarrow> NaN | Some n \<Rightarrow> Num (of_nat n)))
          else None
      | _ \<Rightarrow> None)"

definition unsigned_decimal :: "string \<Rightarrow> number" where
  "unsigned_decimal s =
     (if s = ''Infinity'' then PosInfinity
      else
        (let ip = takeWhile is_digit s;
             r1 = dropWhile is_digit s;
             (fp, r2) = (case r1 of [] \<Rightarrow> ([], [])
                         | c # cs \<Rightarrow> if c = CHR ''.''
                                     then (takeWhile is_digit cs, dropWhile is_digit cs)
                                     else ([], r1))
         in if ip = [] \<and> fp = [] then NaN
            else (case exp_part r2 of
                    None \<Rightarrow> NaN
                  | Some (e, r3) \<Rightarrow>
                      if r3 \<noteq> [] then NaN
                      else Num (scale10 (of_nat (decimal 0 (ip @ fp)) / 10 ^ length fp) e))))"

fun negate :: "number \<Rightarrow> number" where
  "negate NaN = NaN"
| "negate PosInfinity = NegInfinity"
| "negate NegInfinity = PosInfinity"
| "negate (Num q) = Num (- q)"

definition string_to_number :: "string \<Rightarrow> number" where
  "string_to_number s =
     (case trim s of
        [] \<Rightarrow> Num 0
      | c # cs \<Rightarrow>
          (case non_decimal (c # cs) of
             Some n \<Rightarrow> n
           | None \<Rightarrow>
               if c = CHR ''-'' then negate (unsigned_decimal cs)
               else if c = CHR ''+'' then unsigned_decimal cs
               else unsigned_decimal (c # cs)))"

text \<open>Printing a number.\<close>

fun fraction_digits :: "nat \<Rightarrow> rat \<Rightarrow> string" where
  "fraction_digits 0 r = []"
| "fraction_digits (Suc n) r =
     (if r = 0 then []
      else char_of (48 + nat \<lfloor>r * 10\<rfloor>) # fraction_digits n (r * 10 - of_int \<lfloor>r * 10\<rfloor>))"

definition show_rat :: "rat \<Rightarrow> string" where
  "show_rat q =
     (let a = \<bar>q\<bar>; ip = nat \<lfloor>a\<rfloor>; fr = a - of_int \<lfloor>a\<rfloor>
      in (if q < 0 then ''-'' else []) @ show_nat ip @
         (if fr = 0 then [] else ''.'' @ fraction_digits 20 fr))"

fun number_to_string :: "number \<Rightarrow> string" where
  "number_to_string NaN = ''NaN''"
| "number_to_string PosInfinity = ''Infinity''"
| "number_to_string NegInfinity = ''-Infinity''"
| "number_to_string (Num q) = show_rat q"

text \<open>\<open>JSON.stringify\<close>: no white space, NaN and the infinities as \<open>null\<close>.\<close>

definition hex_digit :: "nat \<Rightarrow> char" where
  "hex_digit d = (if d < 10 then char_of (48 + d) else char_of (87 + d))"

definition escape_char :: "char \<Rightarrow> string" where
  "escape_char c =
     (if c = CHR 0x22 then [CHR 0x5C, CHR 0x22]
      else if c = CHR 0x5C then [CHR 0x5C, CHR 0x5C]
      else if c = CHR 0x08 then [CHR 0x5C, CHR ''b'']
      else if c = CHR 0x0C then [CHR 0x5C, CHR ''f'']
      else if c = CHR 0x0A then [CHR 0x5C, CHR ''n'']
      else if c = CHR 0x0D then [CHR 0x5C, CHR ''r'']
      else if c = CHR 0x09 then [CHR 0x5C, CHR ''t'']
      else if (of_char c :: nat) < 32
        then [CHR 0x5C, CHR ''u'', CHR ''0'', CHR ''0'',
              hex_digit (of_char c div 16), hex_digit (of_char c mod 16)]
      else [c])"

definition quote :: "string \<Rightarrow> string" where
  "quote s = CHR 0x22 # concat (map escape_char s) @ [CHR 0x22]"

fun stringify :: "json \<Rightarrow> string"
  and stringify_elements :: "json list \<Rightarrow> string list"
  and stringify_members :: "(string \<times> json) list \<Rightarrow> string list" where
  "stringify JNull = ''null''"
| "stringify (JBool b) = (if b then ''true'' else ''false'')"
| "stringify (JNumber n) = (case n of Num q \<Rightarrow> number_to_string n | _ \<Rightarrow> ''null'')"
| "stringify (JString s) = quote s"
| "stringify (JArray xs) = ''['' @ intercalate '','' (stringify_elements xs) @ '']''"
| "stringify (JObject kvs) = ''{'' @ intercalate '','' (stringify_members kvs) @ ''}''"
| "stringify_elements [] = []"
| "stringify_elements (x # xs) = stringify x # stringify_elements xs"
| "stringify_members [] = []"
| "stringify_members ((k, v) # kvs) = (quote k @ '':'' @ stringify v) # stringify_members kvs"

text \<open>The error of the HTTP layer for a status code outside 100 to 999.\<close>

definition show_int :: "int \<Rightarrow> string" where
  "show_int i = (if i < 0 then ''-'' @ show_nat (nat (- i)) else show_nat (nat i))"

definition invalid_status_code :: "int \<Rightarrow> js_error" where
  "invalid_status_code code = RangeError (''Invalid status code: '' @ show_int code)"

definition ecma :: builtins where
  "ecma = \<lparr>JSON_parse = parse_json, JSON_stringify = stringify,
           StringToNumber = string_to_number, NumberToString = number_to_string,
           InvalidStatusCode = invalid_status_code\<rparr>"

section \<open>Reading an outcome\<close>

text \<open>
  The outbound invocations among the effects of a call (the script parameters, in
  order), and the audit writes: the pre-write is the INSERT, the post-write an UPDATE.
\<close>

fun fm_calls :: "event list \<Rightarrow> string list" where
  "fm_calls [] = []"
| "fm_calls (RunFmScript p # es) = p # fm_calls es"
| "fm_calls (_ # es) = fm_calls es"

fun updates :: "event list \<Rightarrow> sql list" where
  "updates [] = []"
| "updates (Query (INSERT_webhooks a b c d) # es) = updates es"
| "updates (Query u # es) = u # updates es"
| "updates (_ # es) = updates es"

fun inserts :: "event list \<Rightarrow> sql list" where
  "inserts [] = []"
| "inserts (Query (INSERT_webhooks a b c d) # es) = INSERT_webhooks a b c d # inserts es"
| "inserts (_ # es) = inserts es"

text \<open>
  Where \<open>Number(v)\<close> returns: \<open>v\<close> is a primitive, an object without an own
  \<open>toString\<close>, or an array whose elements are such, at any depth of arrays. A field
  that is absent converts as well (to NaN).
\<close>

fun converts :: "json \<Rightarrow> bool"
  and converts_all :: "json list \<Rightarrow> bool" where
  "converts (JObject kvs) = (map_of kvs ''toString'' = None)"
| "converts (JArray xs) = converts_all xs"
| "converts _ = True"
| "converts_all [] = True"
| "converts_all (x # xs) = (converts x \<and> converts_all xs)"

fun converts_field :: "json option \<Rightarrow> bool" where
  "converts_field None = True"
| "converts_field (Some v) = converts v"

section \<open>Concrete responses, calls and collaborators\<close>

text \<open>
  Scenario A of the specification: the script result is the JSON text
  \<open>{"body":{"ok":true},"httpCode":201}\<close>, nested under \<open>scriptResult.resultParameter\<close>.
\<close>

definition scenario_A_text :: string where
  "scenario_A_text =
     ''{'' @ dq ''body'' @ '':{'' @ dq ''ok'' @ '':true},'' @ dq ''httpCode'' @ '':201}''"

definition scenario_A :: json where
  "scenario_A =
     JObject [(''scriptResult'', JObject [(''resultParameter'', JString scenario_A_text)])]"

text \<open>
  Decoded responses: an object with \<open>httpCode\<close> and no \<open>body\<close>; one with a body
  that is no JSON text and a valid \<open>httpCode\<close>; one with \<open>httpCode\<close> 600; one whose
  \<open>httpCode\<close> is an object with an own property \<open>toString\<close>.
\<close>

definition only_httpCode :: json where
  "only_httpCode = JObject [(''httpCode'', JNumber (Num 201))]"

definition plain_body_201 :: json where
  "plain_body_201 = JObject [(''body'', JString ''plain''), (''httpCode'', JNumber (Num 201))]"

definition httpCode_600 :: json where
  "httpCode_600 = JObject [(''body'', JString ''late''), (''httpCode'', JNumber (Num 600))]"

definition own_toString :: json where
  "own_toString = JObject [(''httpCode'', JObject [(''toString'', JNumber (Num 1))])]"

text \<open>Inbound calls.\<close>

definition sample_request :: request where
  "sample_request =
     \<lparr>params_endpoint = ''orders'', originalUrl = ''/hooks/orders?a=1'', path = ''/hooks/orders'',
      headers = [(''host'', ''example.org''), (''user-agent'', ''curl/8'')],
      req_body = JObject [(''n'', JNumber (Num 1))], remoteAddress = Some ''10.0.0.7''\<rparr>"

definition other_hooks_request :: request where
  "other_hooks_request =
     sample_request\<lparr>params_endpoint := ''other-hooks'', originalUrl := ''/hooks/other-hooks'',
                    path := ''/hooks/other-hooks''\<rparr>"

definition double_query_request :: request where
  "double_query_request =
     \<lparr>params_endpoint = ''foo'', originalUrl = ''/foo?a=1?b=2'', path = ''/foo'',
      headers = [(''host'', ''example.org'')],
      req_body = JObject [], remoteAddress = Some ''10.0.0.7''\<rparr>"

definition orders_post :: request where
  "orders_post =
     \<lparr>params_endpoint = [], originalUrl = ''/orders'', path = ''/orders'',
      headers = [(''host'', ''example.org'')],
      req_body = JObject [], remoteAddress = Some ''10.0.0.7''\<rparr>"

text \<open>
  A backend that cannot be reached, one whose script answers, and one that answers
  with the status 99, which cannot be sent; a store whose every
  query is rejected, one that rejects the INSERT only, and one that stores every row
  under id 7.
\<close>

definition unreachable :: "string \<Rightarrow> js_error + fm_result" where
  "unreachable scriptParam = Inl (Error ''connect ECONNREFUSED'')"

definition script_ok :: "string \<Rightarrow> js_error + fm_result" where
  "script_ok scriptParam = Inr \<lparr>status = 201, body = JObject [(''ok'', JBool True)]\<rparr>"

definition script_99 :: "string \<Rightarrow> js_error + fm_result" where
  "script_99 scriptParam = Inr \<lparr>status = 99, body = JObject [(''ok'', JBool True)]\<rparr>"

definition failing_store :: pool where
  "failing_store = Some (\<lambda>q. Inl (Error ''Connection lost''))"

definition insert_rejecting_store :: pool where
  "insert_rejecting_store =
     Some (\<lambda>q. case q of
                   INSERT_webhooks a b c d \<Rightarrow> Inl (Error ''Unknown column request_id'')
                 | _ \<Rightarrow> Inr 0)"

definition working_store :: pool where
  "working_store = Some (\<lambda>q. Inr 7)"

definition failing_call :: call where
  "failing_call =
     \<lparr>call_pool = None, call_fm = unreachable, call_requestId = ''req-1'',
      call_request = orders_post, call_elapsed = 2500000\<rparr>"

definition unsendable_call :: call where
  "unsendable_call =
     \<lparr>call_pool = None, call_fm = script_99, call_requestId = ''req-1'',
      call_request = orders_post, call_elapsed = 2500000\<rparr>"

section \<open>Properties of the result normalizer\<close>

subsection \<open>Auxiliary facts\<close>

lemma nullish_Some: "nullish (Some v) \<longleftrightarrow> v = JNull"
  by (cases v) auto

lemma get_Some_object: "get rt k = Some h \<Longrightarrow> is_object rt"
  by (cases rt) auto

lemma resultText_nested_string:
  "resultText (JObject [(''scriptResult'', JObject [(''resultParameter'', JString s)])]) = JString s"
  by (simp add: resultText_def opt_get_def coalesce_def)

lemma normalize_string:
  "resultText fmBody = JString s \<Longrightarrow>
   normalize_result B fmBody transport =
     Inr \<lparr>status = transport, body = (case JSON_parse B s of Some v \<Rightarrow> v | None \<Rightarrow> JString s)\<rparr>"
  by (simp add: normalize_result_def candidates_def finalStatus_def parse_candidate_def)

lemma normalize_object:
  "is_object rt \<Longrightarrow> resultText fmBody = rt \<Longrightarrow> Number B (get rt ''httpCode'') = Inr n \<Longrightarrow>
   normalize_result B fmBody transport =
     Inr \<lparr>status = finalStatus (Some n) transport,
          body = parse_candidate B
                   (case coalesce (get rt ''body'') (Some rt) of Some b \<Rightarrow> b | None \<Rightarrow> rt)\<rparr>"
  by (simp add: normalize_result_def candidates_def)

lemma normalize_not_object:
  "\<not> is_object rt \<Longrightarrow> resultText fmBody = rt \<Longrightarrow>
   normalize_result B fmBody transport = Inr \<lparr>status = transport, body = parse_candidate B rt\<rparr>"
  by (simp add: normalize_result_def candidates_def finalStatus_def)

lemma parse_scenario_A:
  "parse_json scenario_A_text
   = Some (JObject [(''body'', JObject [(''ok'', JBool True)]), (''httpCode'', JNumber (Num 201))])"
  by code_simp

lemma parse_plain: "JSON_parse ecma ''plain'' = None"
proof -
  have "parse_json ''plain'' = None" by code_simp
  then show ?thesis by (simp add: ecma_def)
qed

text \<open>The status test accepts exactly the integers from 100 to 599.\<close>

lemma valid_status_iff:
  "valid_status c \<longleftrightarrow> (\<exists>k. c = Some (Num (of_int k)) \<and> 100 \<le> k \<and> k \<le> 599)"
proof
  assume v: "valid_status c"
  then obtain q where c: "c = Some (Num q)"
    by (cases c rule: valid_status.cases) auto
  with v obtain k where k: "q = of_int k" and "100 \<le> q" and "q < 600" by auto
  then have "100 \<le> k" and "k \<le> 599" by auto
  with c k show "\<exists>k. c = Some (Num (of_int k)) \<and> 100 \<le> k \<and> k \<le> 599" by blast
next
  assume "\<exists>k. c = Some (Num (of_int k)) \<and> 100 \<le> k \<and> k \<le> 599"
  then show "valid_status c" by auto
qed

lemma finalStatus_valid:
  "100 \<le> k \<Longrightarrow> k \<le> 599 \<Longrightarrow> finalStatus (Some (Num (of_int k))) transport = k"
  by (simp add: finalStatus_def)

lemma finalStatus_invalid:
  "\<not> valid_status c \<Longrightarrow> finalStatus c transport = transport"
  by (cases c rule: valid_status.cases) (auto simp: finalStatus_def)

lemma finalStatus_either:
  "finalStatus c transport = transport \<or>
   (100 \<le> finalStatus c transport \<and> finalStatus c transport \<le> 599 \<and>
    c = Some (Num (of_int (finalStatus c transport))))"
proof (cases "valid_status c")
  case True
  then obtain k where "c = Some (Num (of_int k))" "100 \<le> k" "k \<le> 599"
    by (auto simp: valid_status_iff)
  then show ?thesis by (simp add: finalStatus_valid)
next
  case False
  then show ?thesis by (simp add: finalStatus_invalid)
qed

text \<open>The conversion to a number returns exactly on the values described by \<open>converts\<close>.\<close>

lemma ToString_converts:
  "(\<exists>s. ToString B v = Inr s) \<longleftrightarrow> converts v"
  "(\<exists>ss. join_elements B vs = Inr ss) \<longleftrightarrow> converts_all vs"
  by (induction B v and B vs rule: ToString_join_elements.induct)
     (auto split: sum.splits)

lemma Number_converts:
  "(\<exists>n. Number B (Some v) = Inr n) \<longleftrightarrow> converts v"
  using ToString_converts(1) [of B v]
  by (cases v) (auto split: sum.splits)

lemma Number_converts_field:
  "converts_field f \<Longrightarrow> \<exists>n. Number B f = Inr n"
  using Number_converts [of B] by (cases f) auto

text \<open>
  Outside those values the conversion throws, and with it the whole of
  \<open>runFmScript\<close>: the \<open>try\<close> of the source encloses the parsing of the body only.
\<close>

lemma normalize_result_raises:
  "normalize_result B own_toString transport = Inl cannot_convert"
  by (simp add: own_toString_def normalize_result_def candidates_def resultText_def opt_get_def
        coalesce_def)

subsection \<open>Scenario A\<close>

text \<open>
  Under the two revisions that do not normalize, a backend that answers Scenario A
  with status 200 is relayed with status 200 as well.
\<close>

lemma scenario_A_relayed:
  "runFmScript_relay B (\<lambda>request. Inr (200, scenario_A)) scriptParam =
     Inr \<lparr>status = 200, body = JString scenario_A_text\<rparr>"
  "runFmScript_get (\<lambda>request. Inr (200, scenario_A)) scriptParam =
     Inr \<lparr>status = 200, body = scenario_A\<rparr>"
  by (simp_all add: runFmScript_relay_def runFmScript_get_def scenario_A_def opt_get_def
      coalesce_def)

text \<open>
  Claim C1 says that Scenario A, with transport status 200, is normalized to status
  201 and body \<open>{ok: true}\<close>. The source does not: the descended value is a string,
  so no status is read from it, and the text is parsed after the extraction step.
\<close>

theorem scenario_A_not_201:
  "normalize_result ecma scenario_A 200 \<noteq> Inr \<lparr>status = 201, body = JObject [(''ok'', JBool True)]\<rparr>"
  by (simp add: scenario_A_def normalize_string [OF resultText_nested_string])

text \<open>
  Claim C1, amended: a script result that is a JSON text is parsed and becomes the
  body as a whole (the text itself where it does not parse), under the transport
  status; Scenario A with transport status 200 is normalized to status 200 and the
  body \<open>{body: {ok: true}, httpCode: 201}\<close>.
\<close>

theorem json_in_string_kept_whole:
  "normalize_result B (JObject [(''scriptResult'', JObject [(''resultParameter'', JString s)])])
       transport
     = Inr \<lparr>status = transport,
            body = (case JSON_parse B s of Some v \<Rightarrow> v | None \<Rightarrow> JString s)\<rparr>
   \<and> normalize_result ecma scenario_A 200
     = Inr \<lparr>status = 200,
            body = JObject [(''body'', JObject [(''ok'', JBool True)]),
                            (''httpCode'', JNumber (Num 201))]\<rparr>"
  by (simp add: scenario_A_def normalize_string [OF resultText_nested_string] ecma_def
      parse_scenario_A)

theorem json_in_string_kept_whole_witness:
  "normalize_result ecma
       (JObject [(''scriptResult'', JObject [(''resultParameter'', JString ''plain'')])]) 502
     = Inr \<lparr>status = 502, body = JString ''plain''\<rparr>"
proof -
  from json_in_string_kept_whole [of ecma "''plain''" 502]
  have "normalize_result ecma
          (JObject [(''scriptResult'', JObject [(''resultParameter'', JString ''plain'')])]) 502
        = Inr \<lparr>status = 502,
               body = (case JSON_parse ecma ''plain'' of Some v \<Rightarrow> v
                       | None \<Rightarrow> JString ''plain'')\<rparr>"
    by blast
  then show ?thesis by (simp add: parse_plain)
qed

subsection \<open>Validation of the candidate status\<close>

text \<open>
  Claim C5: the normalized status is the transport status unless the candidate
  (\<open>httpCode\<close> of the descended value, converted to a number) is an integer from 100
  to 599, and then it is that integer; a candidate 99, 600 or a string that is no
  number gives the transport status.
\<close>

theorem status_validation:
  "(\<forall>r. normalize_result B fmBody transport = Inr r \<longrightarrow>
        status r = transport \<or>
        (100 \<le> status r \<and> status r \<le> 599 \<and>
         Number B (get (resultText fmBody) ''httpCode'') = Inr (Num (of_int (status r)))))
   \<and> (\<forall>h. get (resultText fmBody) ''httpCode'' = Some h \<and>
          (h = JNumber (Num 99) \<or> h = JNumber (Num 600) \<or>
           (\<exists>s. h = JString s \<and> StringToNumber B s = NaN)) \<longrightarrow>
          (\<exists>b. normalize_result B fmBody transport = Inr \<lparr>status = transport, body = b\<rparr>))"
proof (intro conjI allI impI)
  fix r
  assume r: "normalize_result B fmBody transport = Inr r"
  show "status r = transport \<or>
        (100 \<le> status r \<and> status r \<le> 599 \<and>
         Number B (get (resultText fmBody) ''httpCode'') = Inr (Num (of_int (status r))))"
  proof (cases "is_object (resultText fmBody)")
    case False
    from normalize_not_object [OF False refl] r show ?thesis by auto
  next
    case True
    from r obtain n where n: "Number B (get (resultText fmBody) ''httpCode'') = Inr n"
      using True by (auto simp: normalize_result_def candidates_def split: sum.splits)
    from normalize_object [OF True refl n] r
    have s: "status r = finalStatus (Some n) transport" by auto
    from finalStatus_either [of "Some n" transport] s n show ?thesis by auto
  qed
next
  fix h
  assume h: "get (resultText fmBody) ''httpCode'' = Some h \<and>
          (h = JNumber (Num 99) \<or> h = JNumber (Num 600) \<or>
           (\<exists>s. h = JString s \<and> StringToNumber B s = NaN))"
  then have obj: "is_object (resultText fmBody)" by (auto dest: get_Some_object)
  from h obtain n where n: "Number B (get (resultText fmBody) ''httpCode'') = Inr n"
    and bad: "\<not> valid_status (Some n)" by auto
  from normalize_object [OF obj refl n] finalStatus_invalid [OF bad]
  show "\<exists>b. normalize_result B fmBody transport = Inr \<lparr>status = transport, body = b\<rparr>" by auto
qed

lemma httpCode_600_field:
  "get (resultText httpCode_600) ''httpCode'' = Some (JNumber (Num 600))"
  by (simp add: httpCode_600_def resultText_def opt_get_def coalesce_def)

theorem status_validation_witness:
  "get (resultText httpCode_600) ''httpCode'' = Some (JNumber (Num 600))
   \<and> (\<exists>b. normalize_result ecma httpCode_600 200 = Inr \<lparr>status = 200, body = b\<rparr>)"
  using status_validation [of ecma httpCode_600 200] httpCode_600_field by blast

subsection \<open>Extraction of the candidates\<close>

text \<open>
  Claim C6 says that a descended object with only one of \<open>body\<close> and \<open>httpCode\<close>
  becomes the candidate body as a whole and gives no candidate status. The source
  reads the two fields independently: from an object with \<open>httpCode\<close> 201 and no
  \<open>body\<close> it takes the candidate status 201, and the normalized status is 201, not
  the transport status 200.
\<close>

theorem status_taken_without_body:
  "candidates ecma only_httpCode = Inr (Some (Num 201), only_httpCode)
   \<and> normalize_result ecma only_httpCode 200 = Inr \<lparr>status = 201, body = only_httpCode\<rparr>"
  by (simp add: only_httpCode_def normalize_result_def candidates_def resultText_def opt_get_def
        coalesce_def finalStatus_def parse_candidate_def)

text \<open>
  Claim C6, amended: for a descended object or array the candidate status is the
  number that \<open>httpCode\<close> converts to, whether or not there is a \<open>body\<close>, and the
  candidate body is the \<open>body\<close> field where it is present and not \<open>null\<close>, else the
  whole value; any other descended value is the candidate body, with no candidate
  status. So an object without \<open>body\<close> whose \<open>httpCode\<close> is an integer from 100 to
  599 is normalized to that status, with the whole object as the body.
\<close>

theorem candidates_independent:
  "(is_object rt \<and> Number B (get rt ''httpCode'') = Inr n \<longrightarrow>
      candidates B rt =
        Inr (Some n, (case get rt ''body'' of
                        None \<Rightarrow> rt
                      | Some v \<Rightarrow> if v = JNull then rt else v)))
   \<and> (\<not> is_object rt \<longrightarrow> candidates B rt = Inr (None, rt))
   \<and> (is_object (resultText fmBody) \<and> get (resultText fmBody) ''body'' = None \<and>
      Number B (get (resultText fmBody) ''httpCode'') = Inr (Num (of_int k)) \<and>
      100 \<le> k \<and> k \<le> 599 \<longrightarrow>
        normalize_result B fmBody transport = Inr \<lparr>status = k, body = resultText fmBody\<rparr>)"
proof (intro conjI impI)
  assume "is_object rt \<and> Number B (get rt ''httpCode'') = Inr n"
  then show "candidates B rt =
        Inr (Some n, (case get rt ''body'' of
                        None \<Rightarrow> rt
                      | Some v \<Rightarrow> if v = JNull then rt else v))"
    by (auto simp: candidates_def coalesce_def nullish_Some split: option.splits)
next
  assume "\<not> is_object rt"
  then show "candidates B rt = Inr (None, rt)"
    by (simp add: candidates_def)
next
  assume a: "is_object (resultText fmBody) \<and> get (resultText fmBody) ''body'' = None \<and>
      Number B (get (resultText fmBody) ''httpCode'') = Inr (Num (of_int k)) \<and>
      100 \<le> k \<and> k \<le> 599"
  then have obj: "is_object (resultText fmBody)"
    and n: "Number B (get (resultText fmBody) ''httpCode'') = Inr (Num (of_int k))"
    by simp_all
  from a have "parse_candidate B (resultText fmBody) = resultText fmBody"
    by (cases "resultText fmBody") (simp_all add: parse_candidate_def)
  with normalize_object [OF obj refl n] a
  show "normalize_result B fmBody transport = Inr \<lparr>status = k, body = resultText fmBody\<rparr>"
    by (simp add: coalesce_def finalStatus_valid)
qed

theorem candidates_independent_witness:
  "is_object only_httpCode \<and> Number ecma (get only_httpCode ''httpCode'') = Inr (Num 201)
   \<and> candidates ecma only_httpCode = Inr (Some (Num 201), only_httpCode)"
proof -
  have h: "is_object only_httpCode \<and> Number ecma (get only_httpCode ''httpCode'') = Inr (Num 201)"
    by (simp add: only_httpCode_def)
  have b: "get only_httpCode ''body'' = None"
    by (simp add: only_httpCode_def)
  from candidates_independent [of only_httpCode ecma "Num 201"] h
  have "candidates ecma only_httpCode =
        Inr (Some (Num 201), (case get only_httpCode ''body'' of
                        None \<Rightarrow> only_httpCode
                      | Some v \<Rightarrow> if v = JNull then only_httpCode else v))"
    by blast
  with h b show ?thesis by simp
qed

subsection \<open>Totality\<close>

text \<open>
  Where the \<open>httpCode\<close> of the descended value is absent or converts to a number, the
  chain returns: the status is the validated candidate for an object or array and the
  transport status otherwise, the body is the candidate body, parsed if it is a JSON
  text. A descended value that is a string which does not parse gives the transport
  status with the raw string; a \<open>body\<close> field that is such a string is kept as it is,
  under the validated status.
\<close>

lemma normalizer_returns:
  "converts_field (get (resultText fmBody) ''httpCode'') \<Longrightarrow>
   \<exists>n. Number B (get (resultText fmBody) ''httpCode'') = Inr n \<and>
       normalize_result B fmBody transport =
         Inr \<lparr>status = (if is_object (resultText fmBody) then finalStatus (Some n) transport
                         else transport),
              body = parse_candidate B
                       (if is_object (resultText fmBody)
                        then (case get (resultText fmBody) ''body'' of
                                None \<Rightarrow> resultText fmBody
                              | Some v \<Rightarrow> if v = JNull then resultText fmBody else v)
                        else resultText fmBody)\<rparr>"
proof -
  assume "converts_field (get (resultText fmBody) ''httpCode'')"
  then obtain n where n: "Number B (get (resultText fmBody) ''httpCode'') = Inr n"
    using Number_converts_field by blast
  show ?thesis
  proof (cases "is_object (resultText fmBody)")
    case True
    from normalize_object [OF True refl n] True n show ?thesis
      by (auto simp: coalesce_def nullish_Some split: option.splits)
  next
    case False
    from normalize_not_object [OF False refl] False n show ?thesis by auto
  qed
qed

lemma plain_string_degrades:
  "resultText fmBody = JString s \<Longrightarrow> JSON_parse B s = None \<Longrightarrow>
   normalize_result B fmBody transport = Inr \<lparr>status = transport, body = JString s\<rparr>"
  by (simp add: normalize_string)

lemma plain_body_keeps_candidate_status:
  "JSON_parse ecma ''plain'' = None
   \<and> normalize_result ecma plain_body_201 200 = Inr \<lparr>status = 201, body = JString ''plain''\<rparr>"
  by (simp add: parse_plain plain_body_201_def normalize_result_def candidates_def resultText_def
      opt_get_def coalesce_def finalStatus_def parse_candidate_def)

text \<open>
  Claim C7 says that the chain is total: it never raises for any well-formed decoded
  response. The source converts \<open>httpCode\<close> with \<open>Number\<close> outside its \<open>try\<close> block, and
  the conversion throws for an object with an own property \<open>toString\<close>. For the
  decoded response \<open>{httpCode: {toString: 1}}\<close> with transport status 200 the
  normalization raises a TypeError, and with it \<open>runFmScript\<close>.
\<close>

theorem normalizer_raises_on_own_toString:
  "normalize_result ecma own_toString 200 =
     Inl (TypeError ''Cannot convert object to primitive value'')
   \<and> runFmScript ecma (\<lambda>request. Inr (200, own_toString)) ''{}'' =
       Inl (TypeError ''Cannot convert object to primitive value'')"
  using normalize_result_raises [of ecma 200]
  by (simp add: runFmScript_def cannot_convert_def)

section \<open>Properties of the webhook handler\<close>

subsection \<open>Auxiliary facts\<close>

lemma fm_calls_append: "fm_calls (xs @ ys) = fm_calls xs @ fm_calls ys"
  by (induction xs rule: fm_calls.induct) auto

lemma updates_append: "updates (xs @ ys) = updates xs @ updates ys"
  by (induction xs rule: updates.induct) auto

lemma inserts_append: "inserts (xs @ ys) = inserts xs @ inserts ys"
  by (induction xs rule: inserts.induct) auto

lemma fm_calls_pre_insert: "fm_calls (snd (pre_insert pool ins)) = []"
  by (auto simp: pre_insert_def split: option.splits sum.splits)

lemma fm_calls_post_update: "fm_calls (post_update pool i upd l) = []"
  by (auto simp: post_update_def split: option.splits sum.splits)

lemma updates_pre_insert:
  "updates (snd (pre_insert pool (INSERT_webhooks a b c d))) = []"
  by (auto simp: pre_insert_def split: option.splits sum.splits)

lemma inserts_pre_insert:
  "inserts (snd (pre_insert pool (INSERT_webhooks a b c d))) =
     (case pool of None \<Rightarrow> [] | Some q \<Rightarrow> [INSERT_webhooks a b c d])"
  by (auto simp: pre_insert_def split: option.splits sum.splits)

lemma inserts_post_update:
  "inserts (post_update pool i (UPDATE_webhooks a b) l) = []"
  "inserts (post_update pool i (UPDATE_webhooks_duration a b c) l) = []"
  by (auto simp: post_update_def split: option.splits sum.splits)

lemma updates_post_update:
  "updates (post_update pool i (UPDATE_webhooks a b) l) =
     (case (pool, i) of (Some q, Some rowid) \<Rightarrow> [UPDATE_webhooks a b rowid] | _ \<Rightarrow> [])"
  "updates (post_update pool i (UPDATE_webhooks_duration a b c) l) =
     (case (pool, i) of (Some q, Some rowid) \<Rightarrow> [UPDATE_webhooks_duration a b c rowid] | _ \<Rightarrow> [])"
  by (auto simp: post_update_def split: option.splits sum.splits)

text \<open>The \<open>catch\<close> block: its response, and what it adds to the effects before it.\<close>

lemma catch_block_sent:
  "sent (catch_block B pool i hs err before) =
     \<lparr>res_status = 500, res_headers = hs, res_json = Some (error_body err)\<rparr>"
  by (simp add: catch_block_def)

lemma catch_block_fm_calls:
  "fm_calls (events (catch_block B pool i hs err before)) = fm_calls before"
  by (simp add: catch_block_def fm_calls_append fm_calls_post_update)

lemma catch_block_inserts:
  "inserts (events (catch_block B pool i hs err before)) = inserts before"
  by (simp add: catch_block_def inserts_append inserts_post_update)

lemma catch_block_updates:
  "updates (events (catch_block B pool i hs err before)) =
     updates before @
     (case (pool, i) of
        (Some q, Some rowid) \<Rightarrow> [UPDATE_webhooks (JSON_stringify B (error_body err)) 500 rowid]
      | _ \<Rightarrow> [])"
  by (simp add: catch_block_def updates_append updates_post_update)

text \<open>The pre-write yields a row id exactly when the store is there and returns one.\<close>

lemma inserted_row_cases:
  "inserted_row pool ins = Some rowid \<longleftrightarrow>
     (\<exists>q. pool = Some q \<and> q ins = Inr rowid \<and> rowid \<noteq> 0)"
  by (auto simp: inserted_row_def pre_insert_def split: option.splits sum.splits)

lemma inserted_row_None [simp]: "inserted_row None ins = None"
  by (simp add: inserted_row_def pre_insert_def)

lemma working_store_row: "inserted_row working_store ins = Some 7"
  by (simp add: inserted_row_def pre_insert_def working_store_def)

text \<open>The response, the invocations and the audit writes of the handler.\<close>

lemma hooks_handler_sent:
  "sent (hooks_handler B pool fm requestId req) =
     (let endpoint = params_endpoint req;
          scriptParam = JSON_stringify B (payloadObj requestId endpoint req)
      in case (if endpoint = ''other-hooks''
                 then Inr \<lparr>status = 200, body = other_hooks_response endpoint\<rparr>
               else fm scriptParam) of
           Inr r \<Rightarrow>
             if sendable (response_code r) then
               \<lparr>res_status = response_code r,
                res_headers = [(''X-Request-Id'', requestId)],
                res_json = Some (bodyOut (body r) requestId)\<rparr>
             else
               \<lparr>res_status = 500,
                res_headers = [(''X-Request-Id'', requestId)],
                res_json = Some (error_body (InvalidStatusCode B (response_code r)))\<rparr>
         | Inl err \<Rightarrow> \<lparr>res_status = 500, res_headers = [],
                        res_json = Some (error_body err)\<rparr>)"
  by (auto simp: hooks_handler_def Let_def catch_block_sent split: sum.splits)

lemma hooks_handler_fm_calls:
  "fm_calls (events (hooks_handler B pool fm requestId req)) =
     (if params_endpoint req = ''other-hooks'' then []
      else [JSON_stringify B (payloadObj requestId (params_endpoint req) req)])"
  by (auto simp: hooks_handler_def Let_def fm_calls_append fm_calls_post_update
      fm_calls_pre_insert catch_block_fm_calls split: sum.splits)

lemma hooks_handler_inserts:
  "inserts (events (hooks_handler B pool fm requestId req)) =
     (case pool of
        None \<Rightarrow> []
      | Some q \<Rightarrow> [INSERT_webhooks (sourceHost req) (params_endpoint req)
                     (JSON_stringify B (payloadObj requestId (params_endpoint req) req))
                     requestId])"
  by (cases "params_endpoint req = ''other-hooks''")
     (simp_all add: hooks_handler_def Let_def inserts_append inserts_post_update
        inserts_pre_insert catch_block_inserts split: sum.splits option.splits)

lemma hooks_handler_updates:
  "params_endpoint req \<noteq> ''other-hooks'' \<Longrightarrow>
   fm (JSON_stringify B (payloadObj requestId (params_endpoint req) req)) = Inr r \<Longrightarrow>
   updates (events (hooks_handler B pool fm requestId req)) =
     (case inserted_row pool (INSERT_webhooks (sourceHost req) (params_endpoint req)
              (JSON_stringify B (payloadObj requestId (params_endpoint req) req)) requestId) of
        None \<Rightarrow> []
      | Some rowid \<Rightarrow>
          UPDATE_webhooks (JSON_stringify B (body r)) (status r) rowid #
          (if sendable (response_code r) then []
           else [UPDATE_webhooks
                   (JSON_stringify B (error_body (InvalidStatusCode B (response_code r))))
                   500 rowid]))"
  by (cases pool)
     (simp_all add: hooks_handler_def Let_def updates_append updates_post_update
        updates_pre_insert catch_block_updates split: option.splits)

lemma post_handler_updates:
  "path_endpoint req \<noteq> ''other-hooks'' \<Longrightarrow>
   fm (JSON_stringify B (payloadObj requestId (path_endpoint req) req)) = Inr r \<Longrightarrow>
   updates (events (fst (post_handler B pool fm requestId req elapsed_ns m))) =
     (case inserted_row pool (INSERT_webhooks (sourceHost req) (path_endpoint req)
              (JSON_stringify B (payloadObj requestId (path_endpoint req) req)) requestId) of
        None \<Rightarrow> []
      | Some rowid \<Rightarrow>
          UPDATE_webhooks_duration (JSON_stringify B (body r)) (status r)
             (durationMs elapsed_ns) rowid #
          (if sendable (response_code r) then []
           else [UPDATE_webhooks
                   (JSON_stringify B (error_body (InvalidStatusCode B (response_code r))))
                   500 rowid]))"
  by (cases pool)
     (simp_all add: post_handler_def Let_def updates_append updates_post_update
        updates_pre_insert catch_block_updates split: option.splits)

lemma sample_not_other: "params_endpoint sample_request \<noteq> ''other-hooks''"
  by (simp add: sample_request_def)

lemma orders_not_other: "path_endpoint orders_post \<noteq> ''other-hooks''"
  by (simp add: orders_post_def path_endpoint_def)

lemma script_ok_returns: "\<exists>r. script_ok p = Inr r"
  by (simp add: script_ok_def)

lemma script_ok_result:
  "script_ok p = Inr \<lparr>status = 201, body = JObject [(''ok'', JBool True)]\<rparr>"
  by (simp add: script_ok_def)

lemma sendable_201: "sendable 201"
  by (simp add: sendable_def)

lemma response_code_201: "response_code \<lparr>status = 201, body = b\<rparr> = 201"
  by (simp add: response_code_def)

text \<open>
  The duration of a call that took 500500000 ns: the seconds are the binary64 number
  next to 0.5005, their product with 1000 is just below 500.5, and the duration
  written is 500 ms.
\<close>

lemma durationMs_500500000: "durationMs 500500000 = 500"
proof -
  have "durationSec 500500000 = to_double (to_double 500500000 / 1000000000)"
    by (simp add: durationSec_def)
  also have "\<dots> = 2254051613498933 / 4503599627370496"
    by code_simp
  finally have s: "durationSec 500500000 = 2254051613498933 / 4503599627370496" .
  have m: "\<lfloor>to_double (2254051613498933 / 4503599627370496 * 1000) + 1 / 2\<rfloor> = (500::int)"
    by code_simp
  show ?thesis unfolding durationMs_def s by (rule m)
qed

text \<open>
  A status that cannot be sent: the script answers 99, the post-update records 99,
  the response throws, and the \<open>catch\<close> block records 500 in a second update and
  answers 500 (with the header that was set before the throw).
\<close>

lemma invalid_status_99: "InvalidStatusCode ecma 99 = RangeError ''Invalid status code: 99''"
proof -
  have "invalid_status_code 99 = RangeError ''Invalid status code: 99''"
    by code_simp
  then show ?thesis by (simp add: ecma_def)
qed

lemma unsendable_status_second_update:
  "sent (hooks_handler ecma working_store script_99 ''req-1'' sample_request) =
     \<lparr>res_status = 500, res_headers = [(''X-Request-Id'', ''req-1'')],
      res_json = Some (JObject [(''error'', JString ''Invalid status code: 99'')])\<rparr>
   \<and> updates (events (hooks_handler ecma working_store script_99 ''req-1'' sample_request)) =
       [UPDATE_webhooks (JSON_stringify ecma (JObject [(''ok'', JBool True)])) 99 7,
        UPDATE_webhooks (JSON_stringify ecma
           (JObject [(''error'', JString ''Invalid status code: 99'')])) 500 7]"
proof -
  have r: "script_99 p = Inr \<lparr>status = 99, body = JObject [(''ok'', JBool True)]\<rparr>" for p
    by (simp add: script_99_def)
  have n: "\<not> sendable 99"
    by (simp add: sendable_def)
  have c: "response_code \<lparr>status = 99, body = b\<rparr> = 99" for b
    by (simp add: response_code_def)
  show ?thesis
    using hooks_handler_updates [of sample_request script_99 ecma "''req-1''"
          "\<lparr>status = 99, body = JObject [(''ok'', JBool True)]\<rparr>" working_store,
          OF sample_not_other r]
    by (simp add: hooks_handler_sent sample_not_other r n c working_store_row invalid_status_99
        error_body_def)
qed

subsection \<open>The post-write\<close>

text \<open>
  Claim C3 says that every call whose remote invocation returns records the elapsed
  time and attempts a post-write of the response, the status and the duration, keyed
  by the request id. The source attempts no post-write when no store is configured,
  and none when the store is there but rejected the pre-write, although the call
  completes (here with the script's status 201).
\<close>

theorem no_post_write_without_row:
  "res_status (sent (hooks_handler ecma None script_ok ''req-1'' sample_request)) = 201
   \<and> updates (events (hooks_handler ecma None script_ok ''req-1'' sample_request)) = []
   \<and> res_status (sent (hooks_handler ecma insert_rejecting_store script_ok ''req-1''
                          sample_request)) = 201
   \<and> updates (events (hooks_handler ecma insert_rejecting_store script_ok ''req-1''
                        sample_request)) = []"
proof -
  have row: "inserted_row insert_rejecting_store (INSERT_webhooks a b c d) = None" for a b c d
    by (simp add: inserted_row_def pre_insert_def insert_rejecting_store_def)
  show ?thesis
    using hooks_handler_updates [of sample_request script_ok ecma "''req-1''"
          "\<lparr>status = 201, body = JObject [(''ok'', JBool True)]\<rparr>" None,
          OF sample_not_other script_ok_result]
      hooks_handler_updates [of sample_request script_ok ecma "''req-1''"
          "\<lparr>status = 201, body = JObject [(''ok'', JBool True)]\<rparr>" insert_rejecting_store,
          OF sample_not_other script_ok_result]
    by (simp add: hooks_handler_sent sample_not_other script_ok_result row sendable_201
        response_code_201)
qed

text \<open>
  Claim C3, amended: for every call whose remote invocation returns, a post-write is
  attempted exactly when the store is configured and the pre-write returned a row
  id. The first one is an UPDATE of the response and the status the invocation
  returned, keyed by that row id (not by the request id); in the revision with the
  timer it also sets the duration, which is \<open>Math.round\<close> of the elapsed seconds
  times 1000, computed in binary64 arithmetic. It is the only one when the response
  can be sent with that status (a code from 100 to 999, 0 standing for 200); when
  it cannot, the \<open>catch\<close> block writes a second UPDATE, of the error and the status
  500, to the same row. With no store, or no row id from the pre-write, no post-write
  is attempted. The instance that follows has a store that keeps the row under id 7
  and a script that answers 201, and in the revision with the timer a call that took
  500500000 ns, recorded as 500 ms.
\<close>

theorem post_write_keyed_by_row:
  "(params_endpoint req \<noteq> ''other-hooks'' \<and>
    fm (JSON_stringify B (payloadObj requestId (params_endpoint req) req)) = Inr r \<longrightarrow>
      updates (events (hooks_handler B pool fm requestId req)) =
        (case inserted_row pool (INSERT_webhooks (sourceHost req) (params_endpoint req)
                 (JSON_stringify B (payloadObj requestId (params_endpoint req) req)) requestId) of
           None \<Rightarrow> []
         | Some rowid \<Rightarrow>
             UPDATE_webhooks (JSON_stringify B (body r)) (status r) rowid #
             (if sendable (response_code r) then []
              else [UPDATE_webhooks
                      (JSON_stringify B (error_body (InvalidStatusCode B (response_code r))))
                      500 rowid])))
   \<and> (path_endpoint req \<noteq> ''other-hooks'' \<and>
      fm (JSON_stringify B (payloadObj requestId (path_endpoint req) req)) = Inr r' \<longrightarrow>
        updates (events (fst (post_handler B pool fm requestId req elapsed_ns m))) =
          (case inserted_row pool (INSERT_webhooks (sourceHost req) (path_endpoint req)
                   (JSON_stringify B (payloadObj requestId (path_endpoint req) req)) requestId) of
             None \<Rightarrow> []
           | Some rowid \<Rightarrow>
               UPDATE_webhooks_duration (JSON_stringify B (body r')) (status r')
                  (durationMs elapsed_ns) rowid #
               (if sendable (response_code r') then []
                else [UPDATE_webhooks
                        (JSON_stringify B (error_body (InvalidStatusCode B (response_code r'))))
                        500 rowid])))
   \<and> (inserted_row pool ins = Some rowid \<longleftrightarrow>
        (\<exists>q. pool = Some q \<and> q ins = Inr rowid \<and> rowid \<noteq> 0))"
  using hooks_handler_updates [of req fm B requestId r pool]
    post_handler_updates [of req fm B requestId r' pool elapsed_ns m]
    inserted_row_cases [of pool ins rowid]
  by blast

theorem post_write_keyed_by_row_witness:
  "params_endpoint sample_request \<noteq> ''other-hooks''
   \<and> script_ok (JSON_stringify ecma (payloadObj ''req-1'' (params_endpoint sample_request)
                  sample_request)) = Inr \<lparr>status = 201, body = JObject [(''ok'', JBool True)]\<rparr>
   \<and> updates (events (hooks_handler ecma working_store script_ok ''req-1'' sample_request)) =
       [UPDATE_webhooks (JSON_stringify ecma (JObject [(''ok'', JBool True)])) 201 7]
   \<and> path_endpoint orders_post \<noteq> ''other-hooks''
   \<and> script_ok (JSON_stringify ecma (payloadObj ''req-2'' (path_endpoint orders_post)
                  orders_post)) = Inr \<lparr>status = 201, body = JObject [(''ok'', JBool True)]\<rparr>
   \<and> updates (events (fst (post_handler ecma working_store script_ok ''req-2'' orders_post
                              500500000 initial_metrics))) =
       [UPDATE_webhooks_duration (JSON_stringify ecma (JObject [(''ok'', JBool True)])) 201 500 7]
   \<and> inserted_row working_store (INSERT_webhooks ''example.org'' ''orders'' ''{}'' ''req-1'') =
       Some 7"
proof -
  let ?r = "\<lparr>status = 201, body = JObject [(''ok'', JBool True)]\<rparr>"
  have a: "updates (events (hooks_handler ecma working_store script_ok ''req-1'' sample_request)) =
        (case inserted_row working_store (INSERT_webhooks (sourceHost sample_request)
                 (params_endpoint sample_request)
                 (JSON_stringify ecma (payloadObj ''req-1'' (params_endpoint sample_request)
                    sample_request)) ''req-1'') of
           None \<Rightarrow> []
         | Some rowid \<Rightarrow>
             UPDATE_webhooks (JSON_stringify ecma (body ?r)) (status ?r) rowid #
             (if sendable (response_code ?r) then []
              else [UPDATE_webhooks
                      (JSON_stringify ecma (error_body (InvalidStatusCode ecma (response_code ?r))))
                      500 rowid]))"
    using post_write_keyed_by_row [of sample_request script_ok ecma "''req-1''" ?r working_store]
      sample_not_other script_ok_result
    by blast
  have b: "updates (events (fst (post_handler ecma working_store script_ok ''req-2'' orders_post
                              500500000 initial_metrics))) =
        (case inserted_row working_store (INSERT_webhooks (sourceHost orders_post)
                 (path_endpoint orders_post)
                 (JSON_stringify ecma (payloadObj ''req-2'' (path_endpoint orders_post)
                    orders_post)) ''req-2'') of
           None \<Rightarrow> []
         | Some rowid \<Rightarrow>
             UPDATE_webhooks_duration (JSON_stringify ecma (body ?r)) (status ?r)
                (durationMs 500500000) rowid #
             (if sendable (response_code ?r) then []
              else [UPDATE_webhooks
                      (JSON_stringify ecma (error_body (InvalidStatusCode ecma (response_code ?r))))
                      500 rowid]))"
    using post_write_keyed_by_row [of orders_post script_ok ecma "''req-2''" ?r working_store ?r
        500500000 initial_metrics]
      orders_not_other script_ok_result
    by blast
  have c: "inserted_row working_store (INSERT_webhooks ''example.org'' ''orders'' ''{}'' ''req-1'') =
       Some 7"
    by (simp add: working_store_row)
  from a b c show ?thesis
    by (simp add: working_store_row sendable_201 response_code_201 durationMs_500500000
        sample_not_other orders_not_other script_ok_result)
qed

subsection \<open>One invocation, one correlation id\<close>

text \<open>
  A call makes one outbound invocation, or none when its endpoint is \<open>other-hooks\<close>;
  the pre-write, where a store is configured, records the request id; the header
  \<open>X-Request-Id\<close> is set when the endpoint is \<open>other-hooks\<close> or the invocation returns,
  and is not set when the invocation throws.
\<close>

lemma invocations_and_header:
  "length (fm_calls (events (hooks_handler B pool fm requestId req))) =
     (if params_endpoint req = ''other-hooks'' then 0 else 1)
   \<and> inserts (events (hooks_handler B pool fm requestId req)) =
       (case pool of
          None \<Rightarrow> []
        | Some q \<Rightarrow> [INSERT_webhooks (sourceHost req) (params_endpoint req)
                       (JSON_stringify B (payloadObj requestId (params_endpoint req) req))
                       requestId])
   \<and> (params_endpoint req = ''other-hooks'' \<or>
       (\<exists>r. fm (JSON_stringify B (payloadObj requestId (params_endpoint req) req)) = Inr r) \<longrightarrow>
         res_headers (sent (hooks_handler B pool fm requestId req)) =
           [(''X-Request-Id'', requestId)])
   \<and> (params_endpoint req \<noteq> ''other-hooks'' \<and>
       (\<exists>err. fm (JSON_stringify B (payloadObj requestId (params_endpoint req) req)) = Inl err) \<longrightarrow>
         res_headers (sent (hooks_handler B pool fm requestId req)) = [])"
  by (auto simp: hooks_handler_fm_calls hooks_handler_inserts hooks_handler_sent
      sendable_def response_code_def)

text \<open>
  Claim C4 says that every accepted call makes exactly one outbound invocation and
  that the header \<open>X-Request-Id\<close> of the response equals the request id recorded in
  the pre-write. The source sets the header in the \<open>try\<close> block only, after the
  invocation: for a call whose one invocation throws, the pre-write has recorded the
  request id \<open>req-1\<close>, and the response is the 500 of the \<open>catch\<close> block with no
  header at all.
\<close>

theorem failed_call_without_header:
  "inserts (events (hooks_handler ecma working_store unreachable ''req-1'' sample_request)) =
     [INSERT_webhooks ''example.org'' ''orders''
        (JSON_stringify ecma (payloadObj ''req-1'' ''orders'' sample_request)) ''req-1'']
   \<and> length (fm_calls (events (hooks_handler ecma working_store unreachable ''req-1''
                                 sample_request))) = 1
   \<and> sent (hooks_handler ecma working_store unreachable ''req-1'' sample_request) =
       \<lparr>res_status = 500, res_headers = [],
        res_json = Some (JObject [(''error'', JString ''connect ECONNREFUSED'')])\<rparr>"
proof -
  have e: "params_endpoint sample_request = ''orders''"
    by (simp add: sample_request_def)
  have h: "sourceHost sample_request = ''example.org''"
    by (simp add: sourceHost_def sample_request_def)
  have u: "unreachable p = Inl (Error ''connect ECONNREFUSED'')" for p
    by (simp add: unreachable_def)
  show ?thesis
    by (simp add: hooks_handler_inserts hooks_handler_fm_calls hooks_handler_sent e h u
        working_store_def error_body_def)
qed

subsection \<open>Audit writes do not reach the caller\<close>

text \<open>
  Claim C8: the response (status, headers and body) is the same for any two audit
  stores, absent, failing in the pre-write or failing in the post-write, and so is
  the list of outbound invocations; a call whose endpoint is not \<open>other-hooks\<close>
  reaches the remote invocation whatever the pre-write did. A store is any function
  from the statement to a rejection or a result, so every way a query can fail is
  covered.
\<close>

theorem audit_isolated:
  "sent (hooks_handler B pool fm requestId req) = sent (hooks_handler B pool' fm requestId req)
   \<and> fm_calls (events (hooks_handler B pool fm requestId req)) =
       fm_calls (events (hooks_handler B pool' fm requestId req))
   \<and> (params_endpoint req \<noteq> ''other-hooks'' \<longrightarrow>
        fm_calls (events (hooks_handler B pool fm requestId req)) =
          [JSON_stringify B (payloadObj requestId (params_endpoint req) req)])"
  by (simp add: hooks_handler_fm_calls hooks_handler_sent)

theorem audit_isolated_witness:
  "params_endpoint sample_request \<noteq> ''other-hooks''
   \<and> sent (hooks_handler ecma failing_store script_ok ''req-1'' sample_request) =
       sent (hooks_handler ecma None script_ok ''req-1'' sample_request)
   \<and> length (fm_calls (events (hooks_handler ecma failing_store script_ok ''req-1'' sample_request))) = 1"
proof -
  note t = audit_isolated [of ecma failing_store script_ok "''req-1''" sample_request None]
  from t have a: "sent (hooks_handler ecma failing_store script_ok ''req-1'' sample_request) =
       sent (hooks_handler ecma None script_ok ''req-1'' sample_request)"
    by blast
  from t sample_not_other
  have "fm_calls (events (hooks_handler ecma failing_store script_ok ''req-1'' sample_request)) =
          [JSON_stringify ecma (payloadObj ''req-1'' (params_endpoint sample_request) sample_request)]"
    by blast
  then have "length (fm_calls (events (hooks_handler ecma failing_store script_ok ''req-1''
                sample_request))) = 1"
    by simp
  with a sample_not_other show ?thesis by blast
qed

subsection \<open>The acknowledgement channel\<close>

text \<open>
  Claim C9: a call whose endpoint is \<open>other-hooks\<close> makes no outbound invocation and
  is answered with status 200, the header \<open>X-Request-Id\<close> set to the request id, and
  the body with status ok, channel other-hooks, the note and the request id.
\<close>

theorem other_hooks_acknowledged:
  "params_endpoint req = ''other-hooks'' \<longrightarrow>
     fm_calls (events (hooks_handler B pool fm requestId req)) = []
     \<and> sent (hooks_handler B pool fm requestId req) =
         \<lparr>res_status = 200,
          res_headers = [(''X-Request-Id'', requestId)],
          res_json = Some (JObject [(''status'', JString ''ok''),
                                    (''channel'', JString ''other-hooks''),
                                    (''note'', JString ''Handled by other-hooks branch''),
                                    (''requestId'', JString requestId)])\<rparr>"
  by (simp add: hooks_handler_fm_calls hooks_handler_sent bodyOut_def other_hooks_response_def
      spread_def sendable_def response_code_def)

theorem other_hooks_acknowledged_witness:
  "params_endpoint other_hooks_request = ''other-hooks''
   \<and> fm_calls (events (hooks_handler ecma working_store unreachable ''req-1'' other_hooks_request)) = []
   \<and> res_status (sent (hooks_handler ecma working_store unreachable ''req-1'' other_hooks_request)) = 200"
proof -
  have h: "params_endpoint other_hooks_request = ''other-hooks''"
    by (simp add: other_hooks_request_def)
  from other_hooks_acknowledged [of other_hooks_request ecma working_store unreachable "''req-1''"] h
  show ?thesis by simp
qed

section \<open>Properties of the redirect\<close>

lemma split_on_no_sep: "c \<notin> set q \<Longrightarrow> split_on c q = [q]"
  by (induction q) auto

lemma split_on_first: "c \<notin> set p \<Longrightarrow> split_on c (p @ c # q) = p # split_on c q"
  by (induction p) auto

text \<open>
  The redirect answers 307, invokes nothing and writes nothing; where the URL has at
  most one question mark, the target carries the whole query string.
\<close>

lemma redirect_handler_effects:
  "res_status (sent (redirect_handler req)) = 307
   \<and> res_headers (sent (redirect_handler req)) = [(''Location'', redirectUrl req)]
   \<and> fm_calls (events (redirect_handler req)) = []
   \<and> inserts (events (redirect_handler req)) = []
   \<and> updates (events (redirect_handler req)) = []"
  by (simp add: redirect_handler_def)

lemma redirect_without_query:
  "CHR ''?'' \<notin> set (originalUrl req) \<Longrightarrow> redirectUrl req = ''/hooks/'' @ params_endpoint req"
  by (simp add: redirectUrl_def split_on_no_sep nth_opt_def)

lemma redirect_simple_query:
  "originalUrl req = p @ CHR ''?'' # q \<Longrightarrow> CHR ''?'' \<notin> set p \<Longrightarrow> CHR ''?'' \<notin> set q \<Longrightarrow>
   redirectUrl req = ''/hooks/'' @ params_endpoint req @ (if q = [] then [] else CHR ''?'' # q)"
  by (simp add: redirectUrl_def split_on_first split_on_no_sep nth_opt_def)

text \<open>
  Claim C10 says that the redirect preserves the original query string. The source
  takes the second piece of the URL split at every question mark, so a query string
  that itself holds a question mark is cut there: a POST to \<open>/foo?a=1?b=2\<close> is
  redirected to \<open>/hooks/foo?a=1\<close>. It is answered 307, with no invocation and no
  audit write.
\<close>

theorem redirect_cuts_query:
  "originalUrl double_query_request = ''/foo?a=1?b=2''
   \<and> sent (redirect_handler double_query_request) =
       \<lparr>res_status = 307, res_headers = [(''Location'', ''/hooks/foo?a=1'')], res_json = None\<rparr>
   \<and> fm_calls (events (redirect_handler double_query_request)) = []
   \<and> inserts (events (redirect_handler double_query_request)) = []
   \<and> updates (events (redirect_handler double_query_request)) = []"
  by (simp add: redirect_handler_def redirectUrl_def double_query_request_def nth_opt_def)

section \<open>Properties of the metrics\<close>

lemma bucket_index_bound:
  "bucket_index s bs i = Some j \<Longrightarrow> j < i + length bs"
proof (induction bs arbitrary: i)
  case Nil
  then show ?case by simp
next
  case (Cons b bs)
  show ?case
  proof (cases "s \<le> b")
    case True
    with Cons.prems show ?thesis by simp
  next
    case False
    with Cons.prems have "bucket_index s bs (Suc i) = Some j" by simp
    from Cons.IH [OF this] show ?thesis by simp
  qed
qed

lemma sum_list_increment:
  "i < length h \<Longrightarrow> sum_list (increment h i) = Suc (sum_list h)"
  by (simp add: increment_def sum_list_update)

lemma length_increment [simp]: "length (increment h i) = length h"
  by (simp add: increment_def)

text \<open>One observation adds one to exactly one bucket.\<close>

lemma observeLatency_sum:
  "length (latencyHistogram m) = 9 \<Longrightarrow>
   sum_list (latencyHistogram (observeLatency s m)) = Suc (sum_list (latencyHistogram m))"
proof -
  assume len: "length (latencyHistogram m) = 9"
  have "(case bucket_index s latencyBuckets 0 of Some i \<Rightarrow> i
         | None \<Rightarrow> length (latencyHistogram m) - 1) < length (latencyHistogram m)"
  proof (cases "bucket_index s latencyBuckets 0")
    case None
    with len show ?thesis by simp
  next
    case (Some j)
    from bucket_index_bound [OF Some] have "j < 9" by (simp add: latencyBuckets_def)
    with Some len show ?thesis by simp
  qed
  then show ?thesis by (simp add: observeLatency_def sum_list_increment)
qed

lemma observeLatency_fields [simp]:
  "requestCount (observeLatency s m) = requestCount m"
  "fmErrorCount (observeLatency s m) = fmErrorCount m"
  "fmCallCount (observeLatency s m) = fmCallCount m"
  "length (latencyHistogram (observeLatency s m)) = length (latencyHistogram m)"
  by (simp_all add: observeLatency_def)

lemma count_status_fields [simp]:
  "requestCount (count_status s m) = requestCount m"
  "fmErrorCount (count_status s m) = fmErrorCount m"
  "fmCallCount (count_status s m) = fmCallCount m"
  "latencyHistogram (count_status s m) = latencyHistogram m"
  by (simp_all add: count_status_def)

lemma serve_one_requestCount:
  "requestCount (snd (serve_one B c m)) = Suc (requestCount m)"
  by (simp add: serve_one_def post_handler_def Let_def split: sum.splits)

lemma serve_one_fmErrorCount:
  "fmErrorCount (snd (serve_one B c m)) = fmErrorCount m + (if caught B c then 1 else 0)"
  by (simp add: serve_one_def post_handler_def caught_def Let_def sendable_def response_code_def
      split: sum.splits)

lemma serve_one_length:
  "length (latencyHistogram (snd (serve_one B c m))) = length (latencyHistogram m)"
  by (simp add: serve_one_def post_handler_def Let_def split: sum.splits)

lemma serve_one_histogram:
  "length (latencyHistogram m) = 9 \<Longrightarrow>
   sum_list (latencyHistogram (snd (serve_one B c m))) =
     sum_list (latencyHistogram m) + (if failed B c then 0 else 1)"
  by (simp add: serve_one_def post_handler_def failed_def Let_def observeLatency_sum
      split: sum.splits)

text \<open>
  After any sequence of calls: the request counter has grown by their number, the
  error counter by the number of those that ended in the \<open>catch\<close> branch, and the
  histogram by the number of those whose invocation did not throw. A call whose
  invocation throws ends in the \<open>catch\<close> branch.
\<close>

lemma serve_requestCount:
  "requestCount (serve B m cs) = requestCount m + length cs"
  by (induction cs arbitrary: m) (simp_all add: serve_one_requestCount)

lemma serve_fmErrorCount:
  "fmErrorCount (serve B m cs) = fmErrorCount m + length (filter (caught B) cs)"
  by (induction cs arbitrary: m) (simp_all add: serve_one_fmErrorCount)

lemma serve_histogram:
  "length (latencyHistogram m) = 9 \<Longrightarrow>
   sum_list (latencyHistogram (serve B m cs)) =
     sum_list (latencyHistogram m) + length (filter (\<lambda>c. \<not> failed B c) cs)"
  by (induction cs arbitrary: m) (simp_all add: serve_one_histogram serve_one_length)

lemma failed_caught: "failed B c \<Longrightarrow> caught B c"
  by (auto simp: failed_def caught_def Let_def split: sum.splits)

lemma failing_call_failed: "failed B failing_call"
  by (simp add: failed_def failing_call_def orders_post_def path_endpoint_def unreachable_def)

lemma failing_call_caught: "caught B failing_call"
  by (simp add: failed_caught failing_call_failed)

text \<open>
  A call whose invocation returns a status that cannot be sent is observed in the
  \<open>try\<close> branch and then counted as an error in the \<open>catch\<close> branch.
\<close>

lemma unsendable_call_observed_and_counted:
  "\<not> failed ecma unsendable_call
   \<and> requestCount (serve ecma initial_metrics [unsendable_call]) = 1
   \<and> fmErrorCount (serve ecma initial_metrics [unsendable_call]) = 1
   \<and> sum_list (latencyHistogram (serve ecma initial_metrics [unsendable_call])) = 1
   \<and> httpStatusCounts (serve ecma initial_metrics [unsendable_call]) = [(99, 1)]"
proof -
  have len: "length (latencyHistogram initial_metrics) = 9"
    by (simp add: initial_metrics_def)
  have f: "\<not> failed ecma unsendable_call"
    by (simp add: failed_def unsendable_call_def orders_post_def path_endpoint_def script_99_def)
  have c: "caught ecma unsendable_call"
    by (simp add: caught_def unsendable_call_def orders_post_def path_endpoint_def script_99_def
        sendable_def response_code_def)
  have "httpStatusCounts (serve ecma initial_metrics [unsendable_call]) = [(99, 1)]"
    by (simp add: serve_one_def post_handler_def Let_def unsendable_call_def orders_post_def
        path_endpoint_def script_99_def initial_metrics_def sendable_def response_code_def
        count_status_def observeLatency_def)
  moreover have "sum_list (latencyHistogram initial_metrics) = 0"
    by (simp add: initial_metrics_def)
  ultimately show ?thesis
    using serve_requestCount [of ecma initial_metrics "[unsendable_call]"]
      serve_fmErrorCount [of ecma initial_metrics "[unsendable_call]"]
      serve_histogram [OF len, of ecma "[unsendable_call]"] f c
    by (simp add: initial_metrics_def)
qed

text \<open>
  Claim C2 says that after N calls of which M fail the request counter is N, the
  error counter is M, and the histogram has grown by the number of calls that
  completed or failed, each call being observed once. The source observes the
  latency and the status in the \<open>try\<close> branch only: after one call whose invocation
  throws, the request counter is 1 and the error counter is 1, but no bucket of the
  histogram has grown and no status has been counted.
\<close>

theorem failed_call_not_observed:
  "failed ecma failing_call
   \<and> requestCount (serve ecma initial_metrics [failing_call]) = 1
   \<and> fmErrorCount (serve ecma initial_metrics [failing_call]) = 1
   \<and> sum_list (latencyHistogram (serve ecma initial_metrics [failing_call])) = 0
   \<and> httpStatusCounts (serve ecma initial_metrics [failing_call]) = []"
proof -
  have len: "length (latencyHistogram initial_metrics) = 9"
    by (simp add: initial_metrics_def)
  have "httpStatusCounts (serve ecma initial_metrics [failing_call]) = []"
    by (simp add: serve_one_def post_handler_def Let_def failing_call_def orders_post_def
        path_endpoint_def unreachable_def initial_metrics_def catch_block_def)
  moreover have "sum_list (latencyHistogram initial_metrics) = 0"
    by (simp add: initial_metrics_def)
  ultimately show ?thesis
    using serve_requestCount [of ecma initial_metrics "[failing_call]"]
      serve_fmErrorCount [of ecma initial_metrics "[failing_call]"]
      serve_histogram [OF len, of ecma "[failing_call]"]
      failing_call_failed [of ecma] failing_call_caught [of ecma]
    by (simp add: initial_metrics_def)
qed

end
